theory Spec2Isabelle
  imports Complex_Main "HOL-Library.AList" "HOL-Library.Product_Lexorder"
begin

section \<open>Python values, dictionaries and strings\<close>

text \<open>
  The scripts pass loosely shaped dictionaries between stages and read them with
  \<^verbatim>\<open>dict.get(key, default)\<close>. A Python value is modelled by \<open>pyval\<close>, a dictionary with
  string keys by an association list in insertion order. A Python \<^verbatim>\<open>str\<close> is modelled by
  its UTF-8 encoding, one \<open>char\<close> per byte.
\<close>

datatype pyval =
    PNone
  | PBool bool
  | PInt int
  | PFloat real
  | PStr string
  | PList "pyval list"
  | PDict "(string \<times> pyval) list"

type_synonym pydict = "(string \<times> pyval) list"

type_synonym exn = string

definition dict_get :: "pydict \<Rightarrow> string \<Rightarrow> pyval \<Rightarrow> pyval" where
  "dict_get d k dflt = (case map_of d k of None \<Rightarrow> dflt | Some v \<Rightarrow> v)"

definition dict_set :: "pydict \<Rightarrow> string \<Rightarrow> pyval \<Rightarrow> pydict" where
  "dict_set d k v = AList.update k v d"

fun py_truthy :: "pyval \<Rightarrow> bool" where
  "py_truthy PNone = False"
| "py_truthy (PBool b) = b"
| "py_truthy (PInt i) = (i \<noteq> 0)"
| "py_truthy (PFloat x) = (x \<noteq> 0)"
| "py_truthy (PStr s) = (s \<noteq> [])"
| "py_truthy (PList xs) = (xs \<noteq> [])"
| "py_truthy (PDict d) = (d \<noteq> [])"

definition digit_char :: "nat \<Rightarrow> char" where
  "digit_char n = ''0123456789'' ! (n mod 10)"

fun show_nat :: "nat \<Rightarrow> string" where
  "show_nat n = (if n < 10 then [digit_char n] else show_nat (n div 10) @ [digit_char n])"

definition show_int :: "int \<Rightarrow> string" where
  "show_int i = (if i < 0 then CHR ''-'' # show_nat (nat (- i)) else show_nat (nat i))"

text \<open>
  \<^verbatim>\<open>str(v)\<close>, as an f-string applies it. The text of a float, a list or a dictionary is
  produced by the interpreter's \<^verbatim>\<open>repr\<close>; it is taken as the parameter \<open>py_repr\<close>.
\<close>

fun py_str :: "(pyval \<Rightarrow> string) \<Rightarrow> pyval \<Rightarrow> string" where
  "py_str py_repr (PStr s) = s"
| "py_str py_repr PNone = ''None''"
| "py_str py_repr (PBool b) = (if b then ''True'' else ''False'')"
| "py_str py_repr (PInt i) = show_int i"
| "py_str py_repr v = py_repr v"

definition startswith :: "string \<Rightarrow> string \<Rightarrow> bool" where
  "startswith s p = (take (length p) s = p)"

definition endswith :: "string \<Rightarrow> string \<Rightarrow> bool" where
  "endswith s p = (length p \<le> length s \<and> drop (length s - length p) s = p)"

fun split_on :: "char \<Rightarrow> string \<Rightarrow> string list" where
  "split_on c [] = [[]]"
| "split_on c (x # xs) =
     (if x = c then [] # split_on c xs
      else (case split_on c xs of [] \<Rightarrow> [[x]] | l # ls \<Rightarrow> (x # l) # ls))"

fun py_join :: "string \<Rightarrow> string list \<Rightarrow> string" where
  "py_join sep [] = []"
| "py_join sep [x] = x"
| "py_join sep (x # y # ys) = x @ sep @ py_join sep (y # ys)"

text \<open>
  \<open>ws_len s\<close> is the number of bytes of the white-space code point that \<open>s\<close> starts with
  (0 when it starts with none): the code points for which \<^verbatim>\<open>str.isspace\<close> holds, in UTF-8.
\<close>

definition ws_len :: "string \<Rightarrow> nat" where
  "ws_len s =
     (case map (of_char :: char \<Rightarrow> nat) s of
        [] \<Rightarrow> 0
      | b0 # r \<Rightarrow>
          if (9 \<le> b0 \<and> b0 \<le> 13) \<or> (28 \<le> b0 \<and> b0 \<le> 32) then 1
          else (case r of
                  [] \<Rightarrow> 0
                | b1 # r' \<Rightarrow>
                    if b0 = 0xC2 \<and> (b1 = 0x85 \<or> b1 = 0xA0) then 2
                    else (case r' of
                            [] \<Rightarrow> 0
                          | b2 # _ \<Rightarrow>
                              if (b0 = 0xE1 \<and> b1 = 0x9A \<and> b2 = 0x80)
                                 \<or> (b0 = 0xE2 \<and> b1 = 0x80
                                      \<and> ((0x80 \<le> b2 \<and> b2 \<le> 0x8A) \<or> b2 = 0xA8 \<or> b2 = 0xA9
                                           \<or> b2 = 0xAF))
                                 \<or> (b0 = 0xE2 \<and> b1 = 0x81 \<and> b2 = 0x9F)
                                 \<or> (b0 = 0xE3 \<and> b1 = 0x80 \<and> b2 = 0x80)
                              then 3 else 0)))"

function lstrip :: "string \<Rightarrow> string" where
  "lstrip s = (if ws_len s = 0 \<or> s = [] then s else lstrip (drop (ws_len s) s))"
  by pat_completeness auto
termination
  by (relation "measure length") auto

definition ws_tail :: "string \<Rightarrow> nat" where
  "ws_tail s =
     (if 1 \<le> length s \<and> ws_len (drop (length s - 1) s) = 1 then 1
      else if 2 \<le> length s \<and> ws_len (drop (length s - 2) s) = 2 then 2
      else if 3 \<le> length s \<and> ws_len (drop (length s - 3) s) = 3 then 3
      else 0)"

function rstrip :: "string \<Rightarrow> string" where
  "rstrip s = (if ws_tail s = 0 \<or> s = [] then s else rstrip (take (length s - ws_tail s) s))"
  by pat_completeness auto
termination
  by (relation "measure length") auto

definition strip :: "string \<Rightarrow> string" where
  "strip s = rstrip (lstrip s)"

text \<open>
  \<^verbatim>\<open>s[:n]\<close> keeps the first \<open>n\<close> code points: in UTF-8, the bytes before the
  \<open>n+1\<close>-th byte that is not a continuation byte.
\<close>

definition is_cont :: "char \<Rightarrow> bool" where
  "is_cont c = (0x80 \<le> (of_char c :: nat) \<and> (of_char c :: nat) < 0xC0)"

fun take_cp :: "nat \<Rightarrow> string \<Rightarrow> string" where
  "take_cp n [] = []"
| "take_cp n (c # cs) =
     (if is_cont c then c # take_cp n cs
      else (case n of 0 \<Rightarrow> [] | Suc m \<Rightarrow> c # take_cp m cs))"

section \<open>The clock: \<^verbatim>\<open>datetime\<close>\<close>

record datetime =
  year :: nat
  month :: nat
  day :: nat
  hour :: nat
  minute :: nat
  second :: nat
  microsecond :: nat

definition dt_key :: "datetime \<Rightarrow> nat \<times> nat \<times> nat \<times> nat \<times> nat \<times> nat \<times> nat" where
  "dt_key d = (year d, month d, day d, hour d, minute d, second d, microsecond d)"

text \<open>Comparison of two \<^verbatim>\<open>datetime\<close> values: field by field, the year first.\<close>

definition dt_less :: "datetime \<Rightarrow> datetime \<Rightarrow> bool" where
  "dt_less a b = (dt_key a < dt_key b)"

definition is_leap :: "nat \<Rightarrow> bool" where
  "is_leap y = (y mod 4 = 0 \<and> (y mod 100 \<noteq> 0 \<or> y mod 400 = 0))"

definition days_in_month :: "nat \<Rightarrow> nat \<Rightarrow> nat" where
  "days_in_month y m =
     (if m = 2 \<and> is_leap y then 29
      else [0, 31, 28, 31, 30, 31, 30, 31, 31, 30, 31, 30, 31] ! (m mod 13))"

definition days_before_year :: "nat \<Rightarrow> int" where
  "days_before_year y =
     (let y1 = int y - 1 in y1 * 365 + y1 div 4 - y1 div 100 + y1 div 400)"

definition days_before_month :: "nat \<Rightarrow> nat \<Rightarrow> int" where
  "days_before_month y m =
     int ([0, 0, 31, 59, 90, 120, 151, 181, 212, 243, 273, 304, 334] ! (m mod 13))
       + (if 2 < m \<and> is_leap y then 1 else 0)"

definition toordinal :: "datetime \<Rightarrow> int" where
  "toordinal d = days_before_year (year d) + days_before_month (year d) (month d) + int (day d)"

text \<open>\<open>a - b\<close> as a \<^verbatim>\<open>timedelta\<close>, in microseconds, and \<^verbatim>\<open>timedelta.total_seconds()\<close>.\<close>

definition dt_sub :: "datetime \<Rightarrow> datetime \<Rightarrow> int" where
  "dt_sub a b =
     ((toordinal a - toordinal b) * 86400
        + (int (hour a) * 3600 + int (minute a) * 60 + int (second a))
        - (int (hour b) * 3600 + int (minute b) * 60 + int (second b))) * 1000000
     + (int (microsecond a) - int (microsecond b))"

definition total_seconds :: "int \<Rightarrow> real" where
  "total_seconds td = real_of_int td / 1000000"

definition pad2 :: "nat \<Rightarrow> string" where
  "pad2 n = [digit_char (n div 10), digit_char n]"

definition pad4 :: "nat \<Rightarrow> string" where
  "pad4 n = [digit_char (n div 1000), digit_char (n div 100), digit_char (n div 10), digit_char n]"

definition pad6 :: "nat \<Rightarrow> string" where
  "pad6 n = [digit_char (n div 100000), digit_char (n div 10000), digit_char (n div 1000),
             digit_char (n div 100), digit_char (n div 10), digit_char n]"

text \<open>
  \<^verbatim>\<open>strftime('%Y-%m-%d')\<close>, the year written with four digits, as every C library writes
  a year from 1000 on.
\<close>

definition strftime_ymd :: "datetime \<Rightarrow> string" where
  "strftime_ymd d = pad4 (year d) @ ''-'' @ pad2 (month d) @ ''-'' @ pad2 (day d)"

definition isoformat :: "datetime \<Rightarrow> string" where
  "isoformat d =
     strftime_ymd d @ ''T'' @ pad2 (hour d) @ '':'' @ pad2 (minute d) @ '':'' @ pad2 (second d)
       @ (if microsecond d = 0 then [] else ''.'' @ pad6 (microsecond d))"

section \<open>The world the scripts run in\<close>

datatype ApprovalStatus = PENDING | APPROVED | REJECTED | EXPIRED

record ApprovalRequest =
  action_type :: string
  description :: string
  action_data :: pydict
  timeout_seconds :: int
  status :: ApprovalStatus
  requested_at :: datetime
  approved_at :: "datetime option"
  rejected_at :: "datetime option"
  approver :: "string option"

text \<open>
  What \<^verbatim>\<open>competitors.json\<close> holds when the run opens it: no file, a file that cannot be
  opened or decoded (the exception raised), text that is not JSON (the decoder's message), or
  a JSON value.
\<close>

datatype config_file = NotFound | Unreadable exn | BadJSON string | Loaded pyval

text \<open>
  All mutable state is in one record. \<open>clock\<close> lists the successive readings of
  \<^verbatim>\<open>datetime.now()\<close> and \<open>ticks\<close> counts the readings taken. The \<^verbatim>\<open>ApprovalRequest\<close>
  objects live in \<open>heap\<close>; a reference to one is its index, so that the three collections of
  an \<^verbatim>\<open>ApprovalHandler\<close> hold references and membership is object identity (the class
  defines no \<^verbatim>\<open>__eq__\<close>). \<open>errors\<close> is \<^verbatim>\<open>ErrorHandler.errors\<close>. \<open>reports_dir\<close> is
  the reports directory: \<open>None\<close> when it does not exist, else its entries in scan order, each
  with its text (\<open>None\<close> when reading it fails). \<open>write_error\<close> is the exception that opening
  a report for writing raises, if any. \<open>browser_calls\<close> counts the page fetches made.
  \<open>unicode_decimal\<close> is the interpreter's table of the decimal digits beyond ASCII: for a
  string that starts with the UTF-8 encoding of a code point of category Nd, the digit's value
  and the number of bytes of the encoding.
\<close>

record world =
  clock :: "nat \<Rightarrow> datetime"
  ticks :: nat
  heap :: "ApprovalRequest list"
  pending_requests :: "nat list"
  approved_requests :: "nat list"
  rejected_requests :: "nat list"
  errors :: "pydict list"
  competitors_json :: config_file
  reports_dir :: "(string \<times> string option) list option"
  write_error :: "exn option"
  browser_calls :: nat
  unicode_decimal :: "string \<Rightarrow> (nat \<times> nat) option"

definition datetime_now :: "world \<Rightarrow> datetime \<times> world" where
  "datetime_now w = (clock w (ticks w), w\<lparr>ticks := Suc (ticks w)\<rparr>)"

section \<open>\<^verbatim>\<open>error_handler.py\<close>\<close>

definition log_error :: "string \<Rightarrow> string \<Rightarrow> pyval \<Rightarrow> pydict option \<Rightarrow> world \<Rightarrow> pydict \<times> world" where
  "log_error error_type message competitor_name context w =
     (let (now, w1) = datetime_now w;
          error_record =
            [(''timestamp'', PStr (isoformat now)),
             (''error_type'', PStr error_type),
             (''message'', PStr message),
             (''competitor_name'', competitor_name),
             (''context'', PDict (case context of None \<Rightarrow> [] | Some c \<Rightarrow> c))]
      in (error_record, w1\<lparr>errors := errors w1 @ [error_record]\<rparr>))"

definition log_configuration_error :: "string \<Rightarrow> world \<Rightarrow> pydict \<times> world" where
  "log_configuration_error message w = log_error ''configuration'' message PNone None w"

definition log_network_error :: "string \<Rightarrow> pyval \<Rightarrow> world \<Rightarrow> pydict \<times> world" where
  "log_network_error message competitor_name w = log_error ''network'' message competitor_name None w"

definition log_script_error :: "string \<Rightarrow> pyval \<Rightarrow> world \<Rightarrow> pydict \<times> world" where
  "log_script_error message competitor_name w = log_error ''script'' message competitor_name None w"

definition log_report_error :: "string \<Rightarrow> pyval \<Rightarrow> world \<Rightarrow> pydict \<times> world" where
  "log_report_error message competitor_name w = log_error ''report'' message competitor_name None w"

definition get_errors_by_type :: "string \<Rightarrow> world \<Rightarrow> pydict list" where
  "get_errors_by_type error_type w =
     filter (\<lambda>e. map_of e ''error_type'' = Some (PStr error_type)) (errors w)"

definition get_errors_by_competitor :: "pyval \<Rightarrow> world \<Rightarrow> pydict list" where
  "get_errors_by_competitor competitor_name w =
     filter (\<lambda>e. map_of e ''competitor_name'' = Some competitor_name) (errors w)"

section \<open>\<^verbatim>\<open>approval_handler.py\<close>\<close>

text \<open>\<^verbatim>\<open>ApprovalRequest.__init__\<close>: the new object is stored at the end of the heap.\<close>

definition ApprovalRequest_init :: "string \<Rightarrow> string \<Rightarrow> pydict \<Rightarrow> int \<Rightarrow> world \<Rightarrow> nat \<times> world" where
  "ApprovalRequest_init atype descr adata timeout w =
     (let (now, w1) = datetime_now w;
          request = \<lparr>action_type = atype, description = descr, action_data = adata,
                     timeout_seconds = timeout, status = PENDING, requested_at = now,
                     approved_at = None, rejected_at = None, approver = None\<rparr>
      in (length (heap w1), w1\<lparr>heap := heap w1 @ [request]\<rparr>))"

definition approve :: "nat \<Rightarrow> string \<Rightarrow> world \<Rightarrow> bool \<times> world" where
  "approve r by_whom w =
     (if status (heap w ! r) \<noteq> PENDING then (False, w)
      else
        let (now, w1) = datetime_now w
        in (True, w1\<lparr>heap := (heap w1)[r := (heap w1 ! r)\<lparr>status := APPROVED,
                                        approved_at := Some now, approver := Some by_whom\<rparr>]\<rparr>))"

definition reject :: "nat \<Rightarrow> string \<Rightarrow> world \<Rightarrow> bool \<times> world" where
  "reject r by_whom w =
     (if status (heap w ! r) \<noteq> PENDING then (False, w)
      else
        let (now, w1) = datetime_now w
        in (True, w1\<lparr>heap := (heap w1)[r := (heap w1 ! r)\<lparr>status := REJECTED,
                                        rejected_at := Some now, approver := Some by_whom\<rparr>]\<rparr>))"

definition is_expired :: "nat \<Rightarrow> world \<Rightarrow> bool \<times> world" where
  "is_expired r w =
     (if status (heap w ! r) \<noteq> PENDING then (False, w)
      else
        let (now, w1) = datetime_now w;
            elapsed = total_seconds (dt_sub now (requested_at (heap w ! r)))
        in (elapsed > real_of_int (timeout_seconds (heap w ! r)), w1))"

definition request_terminal_approval :: "string \<Rightarrow> world \<Rightarrow> nat \<times> world" where
  "request_terminal_approval command w =
     (let (request, w1) =
            ApprovalRequest_init ''terminal''
              (''Execute terminal command: '' @ take_cp 50 command @ ''...'')
              [(''command'', PStr command)] 300 w
      in (request, w1\<lparr>pending_requests := pending_requests w1 @ [request]\<rparr>))"

definition request_file_approval :: "string \<Rightarrow> string \<Rightarrow> world \<Rightarrow> nat \<times> world" where
  "request_file_approval file_path action w =
     (let (request, w1) =
            ApprovalRequest_init ''file'' (action @ '' file: '' @ file_path)
              [(''file_path'', PStr file_path), (''action'', PStr action)] 300 w
      in (request, w1\<lparr>pending_requests := pending_requests w1 @ [request]\<rparr>))"

definition request_url_approval :: "(pyval \<Rightarrow> string) \<Rightarrow> pyval \<Rightarrow> world \<Rightarrow> nat \<times> world" where
  "request_url_approval py_repr url w =
     (let (request, w1) =
            ApprovalRequest_init ''url'' (''Browse URL: '' @ py_str py_repr url)
              [(''url'', url)] 300 w
      in (request, w1\<lparr>pending_requests := pending_requests w1 @ [request]\<rparr>))"

text \<open>The first loop of \<^verbatim>\<open>get_pending_request\<close>, over the pending list.\<close>

fun expire_sweep :: "nat list \<Rightarrow> world \<Rightarrow> world" where
  "expire_sweep [] w = w"
| "expire_sweep (r # rs) w =
     (let (expired, w1) = is_expired r w
      in if expired
         then expire_sweep rs
                (w1\<lparr>heap := (heap w1)[r := (heap w1 ! r)\<lparr>status := EXPIRED\<rparr>],
                    rejected_requests := rejected_requests w1 @ [r]\<rparr>)
         else expire_sweep rs w1)"

definition get_pending_request :: "world \<Rightarrow> nat option \<times> world" where
  "get_pending_request w =
     (if pending_requests w = [] then (None, w)
      else
        let w1 = expire_sweep (pending_requests w) w;
            w2 = w1\<lparr>pending_requests :=
                      filter (\<lambda>r. status (heap w1 ! r) = PENDING) (pending_requests w1)\<rparr>
        in if pending_requests w2 = [] then (None, w2)
           else (Some (hd (pending_requests w2)), w2))"

definition approve_request :: "nat \<Rightarrow> string \<Rightarrow> world \<Rightarrow> bool \<times> world" where
  "approve_request r by_whom w =
     (if r \<notin> set (pending_requests w) then (False, w)
      else
        let (ok, w1) = approve r by_whom w
        in if ok
           then (True, w1\<lparr>pending_requests := remove1 r (pending_requests w1),
                           approved_requests := approved_requests w1 @ [r]\<rparr>)
           else (False, w1))"

definition reject_request :: "nat \<Rightarrow> string \<Rightarrow> world \<Rightarrow> bool \<times> world" where
  "reject_request r by_whom w =
     (if r \<notin> set (pending_requests w) then (False, w)
      else
        let (ok, w1) = reject r by_whom w
        in if ok
           then (True, w1\<lparr>pending_requests := remove1 r (pending_requests w1),
                           rejected_requests := rejected_requests w1 @ [r]\<rparr>)
           else (False, w1))"

definition get_approval_status :: "nat \<Rightarrow> world \<Rightarrow> ApprovalStatus" where
  "get_approval_status r w =
     (if r \<in> set (pending_requests w) then status (heap w ! r)
      else if r \<in> set (approved_requests w) then status (heap w ! r)
      else if r \<in> set (rejected_requests w) then status (heap w ! r)
      else EXPIRED)"

definition get_approved_count :: "world \<Rightarrow> nat" where
  "get_approved_count w = length (approved_requests w)"

definition get_rejected_count :: "world \<Rightarrow> nat" where
  "get_rejected_count w = length (rejected_requests w)"

definition clear_requests :: "world \<Rightarrow> world" where
  "clear_requests w = w\<lparr>pending_requests := [], approved_requests := [], rejected_requests := []\<rparr>"

section \<open>\<^verbatim>\<open>historical_retriever.py\<close>\<close>

text \<open>
  \<^verbatim>\<open>\d\<close> in a pattern on \<^verbatim>\<open>str\<close> matches a decimal digit of any script. \<open>py_digit U s\<close>
  is the value of the digit that \<open>s\<close> starts with and the rest of \<open>s\<close>: an ASCII digit, or
  a code point that the table \<open>U\<close> lists, of two to four bytes.
\<close>

definition ascii_digit :: "char \<Rightarrow> bool" where
  "ascii_digit c = (48 \<le> (of_char c :: nat) \<and> (of_char c :: nat) \<le> 57)"

definition digit_val :: "char \<Rightarrow> nat" where
  "digit_val c = of_char c - 48"

definition py_digit :: "(string \<Rightarrow> (nat \<times> nat) option) \<Rightarrow> string \<Rightarrow> (nat \<times> string) option" where
  "py_digit U s =
     (case s of
        [] \<Rightarrow> None
      | c # r \<Rightarrow>
          if ascii_digit c then Some (digit_val c, r)
          else if (of_char c :: nat) < 128 then None
          else (case U s of
                  None \<Rightarrow> None
                | Some (v, k) \<Rightarrow>
                    if 2 \<le> k \<and> k \<le> 4 \<and> k \<le> length s \<and> v \<le> 9 then Some (v, drop k s)
                    else None))"

definition two_digits :: "(string \<Rightarrow> (nat \<times> nat) option) \<Rightarrow> string \<Rightarrow> (nat \<times> string) option" where
  "two_digits U s =
     (case py_digit U s of
        None \<Rightarrow> None
      | Some (a, r1) \<Rightarrow>
          (case py_digit U r1 of None \<Rightarrow> None | Some (b, r2) \<Rightarrow> Some (a * 10 + b, r2)))"

definition four_digits :: "(string \<Rightarrow> (nat \<times> nat) option) \<Rightarrow> string \<Rightarrow> (nat \<times> string) option" where
  "four_digits U s =
     (case two_digits U s of
        None \<Rightarrow> None
      | Some (a, r1) \<Rightarrow>
          (case two_digits U r1 of None \<Rightarrow> None | Some (b, r2) \<Rightarrow> Some (a * 100 + b, r2)))"

definition expect :: "char \<Rightarrow> string \<Rightarrow> string option" where
  "expect c s = (case s of [] \<Rightarrow> None | x # r \<Rightarrow> if x = c then Some r else None)"

text \<open>What is left of \<open>s\<close> after a match of \<^verbatim>\<open>\d{4}-\d{2}-\d{2}\<close> at its start.\<close>

definition date_group :: "(string \<Rightarrow> (nat \<times> nat) option) \<Rightarrow> string \<Rightarrow> string option" where
  "date_group U s =
     (case four_digits U s of
        None \<Rightarrow> None
      | Some (y, r1) \<Rightarrow>
          (case expect CHR ''-'' r1 of
             None \<Rightarrow> None
           | Some r2 \<Rightarrow>
               (case two_digits U r2 of
                  None \<Rightarrow> None
                | Some (m, r3) \<Rightarrow>
                    (case expect CHR ''-'' r3 of
                       None \<Rightarrow> None
                     | Some r4 \<Rightarrow>
                         (case two_digits U r4 of None \<Rightarrow> None | Some (d, r5) \<Rightarrow> Some r5)))))"

text \<open>
  \<^verbatim>\<open>REPORT_PATTERN.match(name)\<close> for \<^verbatim>\<open>^(\d{4}-\d{2}-\d{2})_Intelligence\.md$\<close>; the result
  is group 1. Without the multi-line flag \<^verbatim>\<open>$\<close> also matches before a final newline.
\<close>

definition REPORT_PATTERN_match :: "(string \<Rightarrow> (nat \<times> nat) option) \<Rightarrow> string \<Rightarrow> string option" where
  "REPORT_PATTERN_match U name =
     (case date_group U name of
        None \<Rightarrow> None
      | Some rest \<Rightarrow>
          if rest = ''_Intelligence.md'' \<or> rest = ''_Intelligence.md\<newline>''
          then Some (take (length name - length rest) name) else None)"

text \<open>
  \<^verbatim>\<open>datetime.strptime(g, '%Y-%m-%d')\<close>; \<open>None\<close> is the \<^verbatim>\<open>ValueError\<close> it raises. The
  format is matched as the pattern
  \<^verbatim>\<open>(\d\d\d\d)-(1[0-2]|0[1-9]|[1-9])-(3[0-1]|[1-2]\d|0[1-9]|[1-9]| [1-9])\<close> at the start of
  \<open>g\<close>, nothing may remain of \<open>g\<close> after the match, and the numbers must be a date of the
  calendar, of a year from 1 on. \<open>strptime_month\<close> and \<open>strptime_day\<close> are the second and the
  third group, each with what follows it.
\<close>

definition in_range :: "char \<Rightarrow> char \<Rightarrow> char \<Rightarrow> bool" where
  "in_range lo hi c = ((of_char lo :: nat) \<le> of_char c \<and> (of_char c :: nat) \<le> of_char hi)"

definition strptime_month :: "string \<Rightarrow> (nat \<times> string) option" where
  "strptime_month s =
     (case s of
        a # b # CHR ''-'' # r \<Rightarrow>
          if a = CHR ''1'' \<and> in_range CHR ''0'' CHR ''2'' b then Some (10 + digit_val b, r)
          else if a = CHR ''0'' \<and> in_range CHR ''1'' CHR ''9'' b then Some (digit_val b, r)
          else if in_range CHR ''1'' CHR ''9'' a \<and> b = CHR ''-'' then Some (digit_val a, CHR ''-'' # r)
          else None
      | a # CHR ''-'' # r \<Rightarrow> if in_range CHR ''1'' CHR ''9'' a then Some (digit_val a, r) else None
      | _ \<Rightarrow> None)"

definition strptime_day :: "(string \<Rightarrow> (nat \<times> nat) option) \<Rightarrow> string \<Rightarrow> (nat \<times> string) option" where
  "strptime_day U s =
     (case s of
        [] \<Rightarrow> None
      | a # r \<Rightarrow>
          if a = CHR ''3'' \<and> r \<noteq> [] \<and> in_range CHR ''0'' CHR ''1'' (hd r)
          then Some (30 + digit_val (hd r), tl r)
          else if in_range CHR ''1'' CHR ''2'' a \<and> py_digit U r \<noteq> None
          then Some (digit_val a * 10 + fst (the (py_digit U r)), snd (the (py_digit U r)))
          else if a = CHR ''0'' \<and> r \<noteq> [] \<and> in_range CHR ''1'' CHR ''9'' (hd r)
          then Some (digit_val (hd r), tl r)
          else if in_range CHR ''1'' CHR ''9'' a then Some (digit_val a, r)
          else if a = CHR '' '' \<and> r \<noteq> [] \<and> in_range CHR ''1'' CHR ''9'' (hd r)
          then Some (digit_val (hd r), tl r)
          else None)"

definition strptime_ymd :: "(string \<Rightarrow> (nat \<times> nat) option) \<Rightarrow> string \<Rightarrow> datetime option" where
  "strptime_ymd U g =
     (case four_digits U g of
        None \<Rightarrow> None
      | Some (y, r1) \<Rightarrow>
          (case expect CHR ''-'' r1 of
             None \<Rightarrow> None
           | Some r2 \<Rightarrow>
               (case strptime_month r2 of
                  None \<Rightarrow> None
                | Some (m, r3) \<Rightarrow>
                    (case strptime_day U r3 of
                       None \<Rightarrow> None
                     | Some (d, r4) \<Rightarrow>
                         if r4 = [] \<and> 1 \<le> y \<and> d \<le> days_in_month y m
                         then Some \<lparr>year = y, month = m, day = d, hour = 0, minute = 0,
                                     second = 0, microsecond = 0\<rparr>
                         else None))))"

text \<open>\<^verbatim>\<open>reports_dir.glob('*.md')\<close>: the names of the entries that end in \<^verbatim>\<open>.md\<close>.\<close>

definition glob_md :: "(string \<times> string option) list \<Rightarrow> string list" where
  "glob_md entries = filter (\<lambda>n. endswith n ''.md'') (map fst entries)"

text \<open>
  The loop of \<^verbatim>\<open>find_latest_report\<close>; the pair is
  \<^verbatim>\<open>(latest_report, latest_date)\<close>. A report is a path in the reports directory and is
  modelled by its file name.
\<close>

fun scan_reports ::
  "(string \<Rightarrow> (nat \<times> nat) option) \<Rightarrow> datetime \<Rightarrow> string list
     \<Rightarrow> string option \<times> datetime option \<Rightarrow> string option \<times> datetime option"
where
  "scan_reports U before_date [] acc = acc"
| "scan_reports U before_date (file_name # rest) (latest_report, latest_date) =
     scan_reports U before_date rest
       (case REPORT_PATTERN_match U file_name of
          None \<Rightarrow> (latest_report, latest_date)
        | Some g \<Rightarrow>
            (case strptime_ymd U g of
               None \<Rightarrow> (latest_report, latest_date)
             | Some report_date \<Rightarrow>
                 if dt_less report_date before_date
                 then (case latest_date of
                         None \<Rightarrow> (Some file_name, Some report_date)
                       | Some ld \<Rightarrow>
                           if dt_less ld report_date then (Some file_name, Some report_date)
                           else (latest_report, latest_date))
                 else (latest_report, latest_date)))"

definition find_latest_report :: "datetime option \<Rightarrow> world \<Rightarrow> string option \<times> world" where
  "find_latest_report before w =
     (let (before_date, w1) = (case before of None \<Rightarrow> datetime_now w | Some d \<Rightarrow> (d, w))
      in case reports_dir w1 of
           None \<Rightarrow> (None, w1)
         | Some entries \<Rightarrow>
             (fst (scan_reports (unicode_decimal w1) before_date (glob_md entries) (None, None)),
              w1))"

definition get_report_date :: "(string \<Rightarrow> (nat \<times> nat) option) \<Rightarrow> string \<Rightarrow> datetime option" where
  "get_report_date U file_name =
     (case REPORT_PATTERN_match U file_name of None \<Rightarrow> None | Some g \<Rightarrow> strptime_ymd U g)"

definition get_report_content :: "string \<Rightarrow> world \<Rightarrow> string option" where
  "get_report_content file_name w =
     (case reports_dir w of
        None \<Rightarrow> None
      | Some entries \<Rightarrow> (case map_of entries file_name of None \<Rightarrow> None | Some c \<Rightarrow> c))"

text \<open>The loop of \<^verbatim>\<open>get_baseline_text\<close>, with its two variables.\<close>

fun baseline_scan :: "string list \<Rightarrow> string list \<Rightarrow> bool \<Rightarrow> string list" where
  "baseline_scan [] content_lines in_content = content_lines"
| "baseline_scan (line # rest) content_lines in_content =
     (if strip line = ''---'' then baseline_scan rest content_lines in_content
      else if startswith line ''#''
      then (if in_content then content_lines else baseline_scan rest content_lines in_content)
      else if \<not> in_content \<and> strip line = [] then baseline_scan rest content_lines in_content
      else baseline_scan rest (content_lines @ [line]) True)"

definition get_baseline_text :: "string \<Rightarrow> world \<Rightarrow> string option" where
  "get_baseline_text file_name w =
     (case get_report_content file_name w of
        None \<Rightarrow> None
      | Some content \<Rightarrow>
          if content = [] then None
          else Some (strip (py_join ''\<newline>'' (baseline_scan (split_on CHR 0x0A content) [] False))))"

section \<open>\<^verbatim>\<open>semantic_diff.py\<close>\<close>

text \<open>
  The collaborators outside the repository: the interpreter's \<^verbatim>\<open>repr\<close>, the browser
  (\<open>extract_text_from_url k url\<close> is what the \<open>k\<close>-th fetch returns for \<open>url\<close>: an
  exception, no content, or the text), the sentence-embedding model, the cosine
  similarity of two vectors, and the floating-point arithmetic. Of the exceptions only those
  under \<^verbatim>\<open>Exception\<close> are modelled, by their message.

  A float is modelled by the real number it stands for. An operation on floats rounds its
  exact result to a float of the precision of its operands (the similarity is a 32-bit float
  of numpy): \<open>float_add\<close>, \<open>float_div\<close> and \<open>float_mul\<close> are \<^verbatim>\<open>+\<close>, \<^verbatim>\<open>/\<close> and \<^verbatim>\<open>*\<close>
  as \<^verbatim>\<open>calculate_similarity\<close> applies them, and \<open>float_round\<close> is the built-in
  \<^verbatim>\<open>round\<close> on a float. The conversion \<^verbatim>\<open>float(x)\<close> of a 32-bit float keeps its value.
\<close>

record env =
  py_repr :: "pyval \<Rightarrow> string"
  extract_text_from_url :: "nat \<Rightarrow> pyval \<Rightarrow> exn + string option"
  encode :: "string list \<Rightarrow> exn + real list list"
  cosine_similarity :: "real list \<Rightarrow> real list \<Rightarrow> exn + real"
  float_add :: "real \<Rightarrow> real \<Rightarrow> real"
  float_div :: "real \<Rightarrow> real \<Rightarrow> real"
  float_mul :: "real \<Rightarrow> real \<Rightarrow> real"
  float_round :: "real \<Rightarrow> nat \<Rightarrow> real"

text \<open>
  The float that the literal \<^verbatim>\<open>0.80\<close> denotes: the double nearest to 0.8. A comparison of
  two floats is exact; the outcome of \<^verbatim>\<open>similarity < threshold\<close> is the same whether numpy
  compares in 64 bits or, the similarity being a 32-bit float, in 32 bits, since no 32-bit
  float lies between 0.8 and either rounding of it.
\<close>

definition double_0_80 :: real where
  "double_0_80 = 3602879701896397 / 4503599627370496"

definition calculate_similarity :: "env \<Rightarrow> string \<Rightarrow> string \<Rightarrow> exn + pydict" where
  "calculate_similarity E text1 text2 =
     (case encode E [text1, text2] of
        Inl e \<Rightarrow> Inl e
      | Inr embeddings \<Rightarrow>
          (case embeddings of
             e0 # e1 # _ \<Rightarrow>
               (case cosine_similarity E e0 e1 of
                  Inl e \<Rightarrow> Inl e
                | Inr similarity \<Rightarrow>
                    let similarity_percentage =
                          float_mul E (float_div E (float_add E similarity 1) 2) 100;
                        threshold = double_0_80;
                        is_strategic_shift = (similarity < threshold)
                    in Inr [(''similarity_percentage'',
                               PFloat (float_round E similarity_percentage 2)),
                            (''cosine_similarity'', PFloat (float_round E similarity 4)),
                            (''threshold'', PFloat threshold),
                            (''shift_classification'',
                               PStr (if is_strategic_shift then ''Strategic_Shift''
                                     else ''minor_update'')),
                            (''is_strategic_shift'', PBool is_strategic_shift),
                            (''text1_embedding'', PList (map PFloat e0)),
                            (''text2_embedding'', PList (map PFloat e1))])
           | _ \<Rightarrow> Inl ''index out of range''))"

text \<open>
  The accuracy of floating-point arithmetic along the computation of the percentage from the
  similarity \<open>s\<close>: each operation returns its exact result rounded to a float, which is off
  by at most the fraction \<open>2^-24\<close> of the result (in 32 bits; less in 64), or by less than
  \<open>2^-100\<close> for a result too small for that; \<^verbatim>\<open>round(c, 2)\<close> returns the float nearest to
  \<open>c\<close> rounded to two decimals, which for a \<open>c\<close> of at most some hundreds is within
  \<open>0.005 + 2^-40\<close> of \<open>c\<close>.
\<close>

definition float_accurate :: "env \<Rightarrow> real \<Rightarrow> bool" where
  "float_accurate E s =
     (let a = float_add E s 1; b = float_div E a 2; c = float_mul E b 100
      in \<bar>a - (s + 1)\<bar> \<le> \<bar>s + 1\<bar> / 2 ^ 24
         \<and> \<bar>b - a / 2\<bar> \<le> \<bar>a / 2\<bar> / 2 ^ 24 + 1 / 2 ^ 100
         \<and> \<bar>c - b * 100\<bar> \<le> \<bar>b * 100\<bar> / 2 ^ 24 + 1 / 2 ^ 100
         \<and> \<bar>float_round E c 2 - c\<bar> \<le> 1 / 200 + 1 / 2 ^ 40)"

text \<open>
  What floating-point arithmetic and \<^verbatim>\<open>round\<close> give on the numbers that the similarities
  1, 0 and -1 lead to: all of them are floats, so every result is exact.
\<close>

definition exact_on_examples :: "env \<Rightarrow> bool" where
  "exact_on_examples E =
     (float_add E 1 1 = 2 \<and> float_add E 0 1 = 1 \<and> float_add E (- 1) 1 = 0
      \<and> float_div E 2 2 = 1 \<and> float_div E 1 2 = 1 / 2 \<and> float_div E 0 2 = 0
      \<and> float_mul E 1 100 = 100 \<and> float_mul E (1 / 2) 100 = 50 \<and> float_mul E 0 100 = 0
      \<and> float_round E 100 2 = 100 \<and> float_round E 50 2 = 50 \<and> float_round E 0 2 = 0)"

definition diff_texts :: "env \<Rightarrow> string \<Rightarrow> string \<Rightarrow> exn + pydict" where
  "diff_texts E current_text historical_text = calculate_similarity E current_text historical_text"

section \<open>\<^verbatim>\<open>report_generator.py\<close>\<close>

text \<open>
  The methods \<^verbatim>\<open>_generate_competitor_section\<close>, \<^verbatim>\<open>_generate_error_section\<close> and
  \<^verbatim>\<open>_generate_recommendations_section\<close> are written without the leading underscore.
\<close>

definition strategic_shift_block :: string where
  "strategic_shift_block =
     ''\<newline>> **'' @ [CHR 0xE2, CHR 0x9A, CHR 0xA0, CHR 0xEF, CHR 0xB8, CHR 0x8F]
       @ '' STRATEGIC SHIFT DETECTED**\<newline>> \<newline>''
       @ ''> This competitor has made a significant change in their messaging that may indicate \<newline>''
       @ ''> a change in business strategy, pricing model, or target demographic. \<newline>''
       @ ''> Further analysis is recommended.\<newline>''"

definition generate_competitor_section :: "env \<Rightarrow> pydict \<Rightarrow> string" where
  "generate_competitor_section E result =
     (let name = py_str (py_repr E) (dict_get result ''competitor_name'' (PStr ''Unknown''));
          url = py_str (py_repr E) (dict_get result ''url'' (PStr ''N/A''));
          analysis_date = py_str (py_repr E) (dict_get result ''analysis_date'' (PStr ''N/A''));
          similarity_percentage =
            py_str (py_repr E) (dict_get result ''similarity_percentage'' (PInt 0));
          classification =
            py_str (py_repr E) (dict_get result ''shift_classification'' (PStr ''Unknown''));
          findings =
            py_str (py_repr E) (dict_get result ''findings'' (PStr ''No significant findings.''));
          baseline_date = py_str (py_repr E) (dict_get result ''baseline_date'' (PStr ''N/A''));
          detailed_changes =
            py_str (py_repr E)
              (dict_get result ''detailed_changes'' (PStr ''No detailed changes available.''));
          has_strategic_shift = dict_get result ''is_strategic_shift'' (PBool False);
          section =
            ''## Competitor: '' @ name
            @ ''\<newline>\<newline>### Overview\<newline>- **URL**: '' @ url
            @ ''\<newline>- **Analysis Date**: '' @ analysis_date
            @ ''\<newline>- **Similarity Score**: '' @ similarity_percentage
            @ ''%\<newline>- **Classification**: '' @ classification
            @ ''\<newline>\<newline>### Findings\<newline>\<newline>'' @ findings
            @ ''\<newline>\<newline>### Historical Comparison\<newline>\<newline>''
            @ ''The current content was compared against the baseline from '' @ baseline_date
            @ ''. \<newline>The cosine similarity between embeddings is '' @ similarity_percentage
            @ ''%, \<newline>indicating a '' @ classification
            @ ''.\<newline>\<newline>### Detailed Changes\<newline>\<newline>'' @ detailed_changes
            @ ''\<newline>''
      in (if py_truthy has_strategic_shift then section @ strategic_shift_block else section)
         @ ''\<newline>'')"

definition no_errors_section :: string where
  "no_errors_section =
     ''## Error Summary\<newline>\<newline>All competitors were processed successfully with no errors.\<newline>''"

definition generate_error_section :: "env \<Rightarrow> pydict list \<Rightarrow> string" where
  "generate_error_section E errs =
     (if errs = [] then no_errors_section
      else
        py_join ''\<newline>''
          (''## Error Summary\<newline>\<newline>The following errors occurred during processing:\<newline>''
           # map (\<lambda>error.
                    ''- **'' @ py_str (py_repr E) (dict_get error ''competitor_name'' (PStr ''Unknown''))
                    @ ''**: ''
                    @ py_str (py_repr E) (dict_get error ''error_message'' (PStr ''Unknown error'')))
               errs)
        @ ''\<newline>'')"

definition monitor_lines :: string where
  "monitor_lines =
     ''\<newline>2. **Monitor Crunchbase**: Check Crunchbase profiles for recent funding rounds or team changes''
     @ ''\<newline>3. **Track Social Media**: Monitor Twitter/X for brand sentiment and customer feedback\<newline>''"

definition generate_recommendations_section :: "env \<Rightarrow> pydict list \<Rightarrow> string" where
  "generate_recommendations_section E strategic_shifts =
     (if strategic_shifts \<noteq> []
      then
        py_join ''\<newline>''
          ((''## Recommendations\<newline>\<newline>Based on the analysis, consider the following actions:''
            @ ''\<newline>\<newline>1. **Review Strategic Shifts**: The following competitors have detected ''
            @ ''strategic shifts that may require immediate attention:\<newline>'')
           # map (\<lambda>shift.
                    ''   - '' @ py_str (py_repr E) (dict_get shift ''competitor_name'' (PStr ''Unknown''))
                    @ '': ''
                    @ py_str (py_repr E)
                        (dict_get shift ''shift_details'' (PStr ''No details available'')))
               strategic_shifts)
        @ monitor_lines
      else
        ''## Recommendations\<newline>\<newline>Based on the analysis, consider the following actions:''
        @ ''\<newline>\<newline>1. No immediate strategic shifts detected. Continue regular monitoring.\<newline>''
        @ monitor_lines)"

text \<open>The f-string that \<^verbatim>\<open>generate_report\<close> fills in.\<close>

definition report_text :: "string \<Rightarrow> nat \<Rightarrow> string list \<Rightarrow> string \<Rightarrow> string \<Rightarrow> string" where
  "report_text current_date n competitor_sections error_section recommendations_section =
     ''# Intelligence Report: '' @ current_date
     @ ''\<newline>\<newline>## Executive Summary\<newline>\<newline>''
     @ ''This report contains competitive intelligence gathered on '' @ show_nat n
     @ '' competitors. \<newline>''
     @ ''The analysis includes web content extraction, semantic diffing against historical baselines, \<newline>''
     @ ''and identification of strategic shifts.\<newline>\<newline>---\<newline>\<newline>''
     @ concat competitor_sections
     @ ''\<newline>\<newline>'' @ error_section
     @ ''\<newline>\<newline>'' @ recommendations_section
     @ ''\<newline>''"

definition generate_report :: "env \<Rightarrow> pydict list \<Rightarrow> pydict list option \<Rightarrow> world \<Rightarrow> string \<times> world" where
  "generate_report E competitor_results errs w =
     (let (now, w1) = datetime_now w;
          current_date = strftime_ymd now;
          strategic_shifts =
            filter (\<lambda>r. py_truthy (dict_get r ''is_strategic_shift'' (PBool False)))
              competitor_results;
          competitor_sections = map (generate_competitor_section E) competitor_results;
          error_section = generate_error_section E (case errs of None \<Rightarrow> [] | Some es \<Rightarrow> es);
          recommendations_section = generate_recommendations_section E strategic_shifts
      in (report_text current_date (length competitor_results) competitor_sections error_section
            recommendations_section, w1))"

section \<open>\<^verbatim>\<open>file_organizer.py\<close>\<close>

definition generate_filename :: "datetime option \<Rightarrow> world \<Rightarrow> string \<times> world" where
  "generate_filename date w =
     (let (d, w1) = (case date of None \<Rightarrow> datetime_now w | Some d \<Rightarrow> (d, w))
      in (strftime_ymd d @ ''_Intelligence.md'', w1))"

section \<open>\<^verbatim>\<open>integration.py\<close>\<close>

definition load_competitors_config :: "world \<Rightarrow> (exn + pyval option) \<times> world" where
  "load_competitors_config w =
     (case competitors_json w of
        NotFound \<Rightarrow>
          (let (r, w1) = log_configuration_error ''competitors.json not found'' w
           in (Inr None, w1))
      | Unreadable e \<Rightarrow> (Inl e, w)
      | BadJSON msg \<Rightarrow>
          (let (r, w1) = log_configuration_error (''Invalid JSON in competitors.json: '' @ msg) w
           in (Inr None, w1))
      | Loaded config \<Rightarrow> (Inr (Some config), w))"

text \<open>
  The body of the \<^verbatim>\<open>try\<close> block of \<^verbatim>\<open>process_competitor\<close>, in two parts. Both return
  the exception that left the block, if any, and the \<^verbatim>\<open>result\<close> dictionary as it was
  then. \<open>record_comparison\<close> is the last statement of the block, the \<^verbatim>\<open>if historical_text\<close>
  with its two branches; \<open>process_body\<close> is what stands before it.
\<close>

definition record_comparison ::
  "env \<Rightarrow> string \<Rightarrow> string option \<Rightarrow> string \<Rightarrow> pydict \<Rightarrow> exn option \<times> pydict"
where
  "record_comparison E current_text historical_text baseline_date result =
     (if historical_text \<noteq> None \<and> historical_text \<noteq> Some []
      then
        (case diff_texts E current_text (the historical_text) of
           Inl e \<Rightarrow> (Some e, result)
         | Inr diff_result \<Rightarrow>
             (case map_of diff_result ''similarity_percentage'' of
                None \<Rightarrow> (Some ''similarity_percentage'', result)
              | Some sp \<Rightarrow>
                  let result1 = dict_set result ''similarity_percentage'' sp
                  in case map_of diff_result ''shift_classification'' of
                       None \<Rightarrow> (Some ''shift_classification'', result1)
                     | Some sc \<Rightarrow>
                         let result2 = dict_set result1 ''shift_classification'' sc
                         in case map_of diff_result ''is_strategic_shift'' of
                              None \<Rightarrow> (Some ''is_strategic_shift'', result2)
                            | Some ss \<Rightarrow>
                                let result3 = dict_set result2 ''is_strategic_shift'' ss;
                                    result4 =
                                      dict_set result3 ''baseline_date'' (PStr baseline_date);
                                    result5 =
                                      dict_set result4 ''detailed_changes''
                                        (PStr (''Similarity: '' @ py_str (py_repr E) sp @ ''%''))
                                in (None,
                                    dict_set result5 ''findings''
                                      (PStr
                                        (if py_truthy ss
                                         then ''Strategic shift detected! Similarity: ''
                                              @ py_str (py_repr E) sp
                                              @ ''%. Changes may indicate a change in business strategy.''
                                         else ''No major changes detected. Similarity: ''
                                              @ py_str (py_repr E) sp
                                              @ ''%. Minor updates observed.'')))))
      else
        let result1 = dict_set result ''similarity_percentage'' (PInt 0);
            result2 = dict_set result1 ''shift_classification'' (PStr ''new_competitor'');
            result3 = dict_set result2 ''is_strategic_shift'' (PBool False);
            result4 = dict_set result3 ''baseline_date'' (PStr ''N/A'');
            result5 = dict_set result4 ''detailed_changes'' (PStr ''No historical data available'')
        in (None,
            dict_set result5 ''findings''
              (PStr ''New competitor - no historical data for comparison'')))"

definition process_body ::
  "env \<Rightarrow> pyval \<Rightarrow> pyval \<Rightarrow> pydict \<Rightarrow> world \<Rightarrow> (exn option \<times> pydict) \<times> world"
where
  "process_body E name url result w =
     (let (url_approval, w1) = request_url_approval (py_repr E) url w;
          (ok, w2) = approve_request url_approval ''test'' w1
      in if status (heap w2 ! url_approval) \<noteq> APPROVED
         then ((None, dict_set result ''findings'' (PStr ''URL browsing not approved'')), w2)
         else
           let fetched = extract_text_from_url E (browser_calls w2) url;
               w3 = w2\<lparr>browser_calls := Suc (browser_calls w2)\<rparr>
           in case fetched of
                Inl e \<Rightarrow> ((Some e, result), w3)
              | Inr current \<Rightarrow>
                  if current = None \<or> current = Some []
                  then
                    let (r, w4) =
                          log_network_error
                            (''Failed to extract text from '' @ py_str (py_repr E) url) name w3
                    in ((None, dict_set result ''findings'' (PStr ''Failed to extract text'')), w4)
                  else
                    let current_text = the current;
                        (historical_report, w4) = find_latest_report None w3
                    in case (case historical_report of
                               None \<Rightarrow> Inr (None, ''N/A'')
                             | Some p \<Rightarrow>
                                 (case get_report_date (unicode_decimal w4) p of
                                    None \<Rightarrow> Inl ''NoneType object has no attribute strftime''
                                  | Some d \<Rightarrow> Inr (get_baseline_text p w4, strftime_ymd d)))
                       of
                         Inl e \<Rightarrow> ((Some e, result), w4)
                       | Inr (historical_text, baseline_date) \<Rightarrow>
                           (record_comparison E current_text historical_text baseline_date result,
                            w4))"

text \<open>
  \<^verbatim>\<open>process_competitor\<close>. The two \<^verbatim>\<open>competitor.get\<close> calls stand before the \<^verbatim>\<open>try\<close>:
  on a value that is no dictionary their \<^verbatim>\<open>AttributeError\<close> leaves the method.
\<close>

definition process_competitor :: "env \<Rightarrow> pyval \<Rightarrow> world \<Rightarrow> (exn + pydict) \<times> world" where
  "process_competitor E competitor w =
     (case competitor of
        PDict c \<Rightarrow>
          let name = dict_get c ''name'' (PStr ''Unknown'');
              url = dict_get c ''url'' (PStr []);
              (now, w0) = datetime_now w;
              result = [(''competitor_name'', name),
                        (''url'', url),
                        (''analysis_date'', PStr (strftime_ymd now)),
                        (''is_strategic_shift'', PBool False),
                        (''findings'', PStr ''Processing...'')];
              ((exc, result1), w1) = process_body E name url result w0
          in (case exc of
                None \<Rightarrow> (Inr result1, w1)
              | Some e \<Rightarrow>
                  let (r, w2) =
                        log_script_error
                          (''Error processing '' @ py_str (py_repr E) name @ '': '' @ e) name w1
                  in (Inr (dict_set result1 ''findings'' (PStr (''Error: '' @ e))), w2))
      | _ \<Rightarrow> (Inl ''object has no attribute get'', w))"

definition generate_error_report :: "string \<Rightarrow> world \<Rightarrow> string \<times> world" where
  "generate_error_report error_message w =
     (let (now, w1) = datetime_now w
      in (''# Intelligence Report: '' @ strftime_ymd now
          @ ''\<newline>\<newline>## Error\<newline>\<newline>'' @ error_message
          @ ''\<newline>\<newline>## Error Summary\<newline>\<newline>''
          @ ''All competitors failed to process due to configuration errors.\<newline>'', w1))"

text \<open>The loop of \<^verbatim>\<open>run_workflow\<close> over the configured competitors.\<close>

fun process_all ::
  "env \<Rightarrow> pyval list \<Rightarrow> pydict list \<Rightarrow> pydict list \<Rightarrow> world
     \<Rightarrow> (exn + pydict list \<times> pydict list) \<times> world"
where
  "process_all E [] results errs w = (Inr (results, errs), w)"
| "process_all E (competitor # rest) results errs w =
     (case process_competitor E competitor w of
        (Inl e, w1) \<Rightarrow> (Inl e, w1)
      | (Inr result, w1) \<Rightarrow>
          (case dict_get result ''findings'' (PStr []) of
             PStr findings \<Rightarrow>
               process_all E rest (results @ [result])
                 (if startswith findings ''Error:''
                  then errs @ [[(''competitor_name'',
                                  dict_get result ''competitor_name'' (PStr ''Unknown'')),
                                (''error_message'',
                                  dict_get result ''findings'' (PStr ''Unknown error''))]]
                  else errs)
                 w1
           | _ \<Rightarrow> (Inl ''object has no attribute startswith'', w1)))"

text \<open>What \<^verbatim>\<open>for competitor in competitors\<close> iterates over.\<close>

definition py_iter :: "pyval \<Rightarrow> exn + pyval list" where
  "py_iter v =
     (case v of
        PList xs \<Rightarrow> Inr xs
      | PDict d \<Rightarrow> Inr (map (\<lambda>kv. PStr (fst kv)) d)
      | PStr s \<Rightarrow> Inr (map (\<lambda>c. PStr [c]) s)
      | _ \<Rightarrow> Inl ''object is not iterable'')"

text \<open>
  \<^verbatim>\<open>with open(filepath, 'w') as f: f.write(report)\<close>; the result is the message of the
  exception, if one is raised. When the reports directory is missing, \<^verbatim>\<open>open\<close> raises
  \<^verbatim>\<open>FileNotFoundError\<close>, whose message ends with the absolute path of the file; the model
  keeps the part of the message that does not depend on where the workspace is.
\<close>

definition write_report :: "string \<Rightarrow> string \<Rightarrow> world \<Rightarrow> exn option \<times> world" where
  "write_report filename report w =
     (case write_error w of
        Some e \<Rightarrow> (Some e, w)
      | None \<Rightarrow>
          (case reports_dir w of
             None \<Rightarrow> (Some ''[Errno 2] No such file or directory'', w)
           | Some entries \<Rightarrow>
               (None, w\<lparr>reports_dir := Some (AList.update filename (Some report) entries)\<rparr>)))"

definition run_workflow :: "env \<Rightarrow> world \<Rightarrow> (exn + string) \<times> world" where
  "run_workflow E w =
     (case load_competitors_config w of
        (Inl e, w1) \<Rightarrow> (Inl e, w1)
      | (Inr config, w1) \<Rightarrow>
          if config = None \<or> \<not> py_truthy (the config)
          then (let (report, w2) = generate_error_report ''Failed to load configuration'' w1
                in (Inr report, w2))
          else
            (case the config of
               PDict cfg \<Rightarrow>
                 let competitors = dict_get cfg ''competitors'' (PList [])
                 in if \<not> py_truthy competitors
                    then (let (report, w2) = generate_error_report ''No competitors configured'' w1
                          in (Inr report, w2))
                    else
                      (case py_iter competitors of
                         Inl e \<Rightarrow> (Inl e, w1)
                       | Inr cs \<Rightarrow>
                           (case process_all E cs [] [] w1 of
                              (Inl e, w2) \<Rightarrow> (Inl e, w2)
                            | (Inr (results, errs), w2) \<Rightarrow>
                                let (report, w3) = generate_report E results (Some errs) w2;
                                    (filename, w4) = generate_filename None w3;
                                    (failure, w5) = write_report filename report w4
                                in (case failure of
                                      None \<Rightarrow> (Inr report, w5)
                                    | Some e \<Rightarrow>
                                        let (r, w6) =
                                              log_report_error (''Failed to save report: '' @ e)
                                                PNone w5
                                        in (Inr report, w6))))
             | _ \<Rightarrow> (Inl ''object has no attribute get'', w1)))"

section \<open>Sequences of calls to an \<^verbatim>\<open>ApprovalHandler\<close>\<close>

text \<open>
  The methods of \<^verbatim>\<open>ApprovalHandler\<close> that change its state, as a datatype of calls, and
  the state after a sequence of calls. \<open>overdue r w\<close> says that at every reading of the
  clock from now on, the time elapsed since request \<open>r\<close> was made exceeds its timeout.
\<close>

datatype handler_call =
    RequestTerminalApproval string
  | RequestFileApproval string string
  | RequestUrlApproval pyval
  | GetPendingRequest
  | ApproveRequest nat string
  | RejectRequest nat string
  | ClearRequests

fun handler_step :: "(pyval \<Rightarrow> string) \<Rightarrow> handler_call \<Rightarrow> world \<Rightarrow> world" where
  "handler_step R (RequestTerminalApproval command) w = snd (request_terminal_approval command w)"
| "handler_step R (RequestFileApproval file_path action) w =
     snd (request_file_approval file_path action w)"
| "handler_step R (RequestUrlApproval url) w = snd (request_url_approval R url w)"
| "handler_step R GetPendingRequest w = snd (get_pending_request w)"
| "handler_step R (ApproveRequest r by_whom) w = snd (approve_request r by_whom w)"
| "handler_step R (RejectRequest r by_whom) w = snd (reject_request r by_whom w)"
| "handler_step R ClearRequests w = clear_requests w"

fun handler_run :: "(pyval \<Rightarrow> string) \<Rightarrow> handler_call list \<Rightarrow> world \<Rightarrow> world" where
  "handler_run R [] w = w"
| "handler_run R (c # cs) w = handler_run R cs (handler_step R c w)"

definition overdue :: "nat \<Rightarrow> world \<Rightarrow> bool" where
  "overdue r w =
     (\<forall>k\<ge>ticks w. total_seconds (dt_sub (clock w k) (requested_at (heap w ! r)))
                     > real_of_int (timeout_seconds (heap w ! r)))"

definition tracked :: "world \<Rightarrow> nat list" where
  "tracked w = pending_requests w @ approved_requests w @ rejected_requests w"

text \<open>
  What holds of the three collections after any sequence of calls: no request is in two of
  them or twice in one, every reference is to an object, and the status of a request agrees
  with the collection that holds it.
\<close>

definition handler_inv :: "world \<Rightarrow> bool" where
  "handler_inv w =
     (distinct (tracked w)
      \<and> (\<forall>r\<in>set (tracked w). r < length (heap w))
      \<and> (\<forall>r\<in>set (pending_requests w). status (heap w ! r) = PENDING)
      \<and> (\<forall>r\<in>set (approved_requests w). status (heap w ! r) = APPROVED)
      \<and> (\<forall>r\<in>set (rejected_requests w).
            status (heap w ! r) = REJECTED \<or> status (heap w ! r) = EXPIRED))"

section \<open>The stored snapshots, in the words of the specification\<close>

text \<open>
  The date that a file name of the form \<^verbatim>\<open>YYYY-MM-DD_Intelligence.md\<close> stands for, each of
  \<^verbatim>\<open>Y\<close>, \<^verbatim>\<open>M\<close>, \<^verbatim>\<open>D\<close> a decimal digit: the date that \<^verbatim>\<open>strptime\<close> reads from the part
  of the name before \<^verbatim>\<open>_Intelligence.md\<close>. It is \<open>None\<close> for a name of any other form and
  when \<^verbatim>\<open>strptime\<close> reads no date. It is what the claim about \<^verbatim>\<open>find_latest_report\<close> is
  stated with, and is compared with the code's own matching in \<open>snapshot_date_glob\<close>.
\<close>

definition snapshot_date :: "(string \<Rightarrow> (nat \<times> nat) option) \<Rightarrow> string \<Rightarrow> datetime option" where
  "snapshot_date U file_name =
     (case date_group U file_name of
        None \<Rightarrow> None
      | Some rest \<Rightarrow>
          if rest = ''_Intelligence.md''
          then strptime_ymd U (take (length file_name - length rest) file_name)
          else None)"

section \<open>The baseline of a run\<close>

text \<open>
  \<open>historical_text_at d w\<close> is the baseline text that \<^verbatim>\<open>process_competitor\<close> works with
  when its look-up of the latest report reads the time \<open>d\<close>: the text that
  \<^verbatim>\<open>get_baseline_text\<close> extracts from the report that \<^verbatim>\<open>find_latest_report\<close> finds, if
  any. \<open>new_competitor_result\<close> is the series of assignments to \<^verbatim>\<open>result\<close> in the branch
  of \<^verbatim>\<open>process_competitor\<close> for a competitor without historical text.
\<close>

definition historical_text_at :: "datetime \<Rightarrow> world \<Rightarrow> string option" where
  "historical_text_at d w =
     (case fst (find_latest_report (Some d) w) of
        None \<Rightarrow> None
      | Some p \<Rightarrow> get_baseline_text p w)"

definition new_competitor_result :: "pydict \<Rightarrow> pydict" where
  "new_competitor_result result =
     dict_set
       (dict_set
          (dict_set
             (dict_set
                (dict_set (dict_set result ''similarity_percentage'' (PInt 0))
                   ''shift_classification'' (PStr ''new_competitor''))
                ''is_strategic_shift'' (PBool False))
             ''baseline_date'' (PStr ''N/A''))
          ''detailed_changes'' (PStr ''No historical data available''))
       ''findings'' (PStr ''New competitor - no historical data for comparison'')"

text \<open>The name under which \<^verbatim>\<open>process_competitor\<close> files a configured competitor.\<close>

definition entity_name :: "pyval \<Rightarrow> pyval" where
  "entity_name competitor =
     (case competitor of PDict c \<Rightarrow> dict_get c ''name'' (PStr ''Unknown'') | _ \<Rightarrow> PNone)"

section \<open>Concrete inputs\<close>

text \<open>
  Stand-ins for the collaborators. The embedding model gives two vectors and their cosine
  similarity is the float \<open>1/1024\<close>. On the numbers that the examples meet, the arithmetic
  is that of the floats: \<open>1/1024 + 1\<close>, \<open>1025/1024 / 2\<close> and \<open>1025/2048 * 100\<close> are floats
  of 24 bits, so the three operations are exact there, as they are at 1, 0 and -1;
  \<^verbatim>\<open>round(50.048828125, 2)\<close> is the double nearest to 50.05 and \<^verbatim>\<open>round(0.0009765625, 4)\<close>
  the double nearest to 0.001, and \<^verbatim>\<open>round\<close> returns a float of at most that many
  decimals, such as 100, 50 or 0, as it is.
\<close>

definition round_examples :: "real \<Rightarrow> nat \<Rightarrow> real" where
  "round_examples x n =
     (if x = 25625 / 512 \<and> n = 2 then 3521955646092083 / 70368744177664
      else if x = 1 / 1024 \<and> n = 4 then 1152921504606847 / 1152921504606846976
      else x)"

definition shift_env :: env where
  "shift_env =
     \<lparr>py_repr = (\<lambda>v. ''?''),
      extract_text_from_url = (\<lambda>k url. Inr None),
      encode = (\<lambda>texts. Inr (map (\<lambda>t. if t = ''old'' then [1, 0] else [5, 12]) texts)),
      cosine_similarity = (\<lambda>a b. Inr (1 / 1024)),
      float_add = (\<lambda>x y. x + y),
      float_div = (\<lambda>x y. x / y),
      float_mul = (\<lambda>x y. x * y),
      float_round = round_examples\<rparr>"

text \<open>The same with a model for which the two texts are identical in meaning.\<close>

definition same_env :: env where
  "same_env = shift_env\<lparr>cosine_similarity := (\<lambda>a b. Inr 1)\<rparr>"

text \<open>
  The decimal digits beyond ASCII of two scripts: the Arabic-Indic digits U+0660 to U+0669,
  encoded as the bytes D9 A0 to D9 A9, and the full-width digits U+FF10 to U+FF19, encoded
  as EF BC 90 to EF BC 99. \<open>fullwidth d\<close> is the encoding of the full-width digit \<open>d\<close>.
\<close>

definition digit_table :: "string \<Rightarrow> (nat \<times> nat) option" where
  "digit_table s =
     (case map of_char s of
        a # b # r \<Rightarrow>
          if a = (217 :: nat) \<and> 160 \<le> b \<and> b \<le> 169 then Some (b - 160, 2)
          else (case r of
                  [] \<Rightarrow> None
                | c # _ \<Rightarrow>
                    if a = 239 \<and> b = 188 \<and> 144 \<le> c \<and> c \<le> 153 then Some (c - 144, 3)
                    else None)
      | _ \<Rightarrow> None)"

definition fullwidth :: "nat \<Rightarrow> string" where
  "fullwidth d = [char_of (239 :: nat), char_of (188 :: nat), char_of (144 + d)]"

text \<open>A clock that always reads the same instant, noon of a day of February 2026, and a
  world with nothing in it: no request, no error, no configuration file, an empty reports
  directory.\<close>

definition stopped_clock :: "datetime \<Rightarrow> nat \<Rightarrow> datetime" where
  "stopped_clock d k = d"

definition noon :: "nat \<Rightarrow> datetime" where
  "noon d = \<lparr>year = 2026, month = 2, day = d, hour = 12, minute = 0, second = 0, microsecond = 0\<rparr>"

definition empty_world :: "(nat \<Rightarrow> datetime) \<Rightarrow> world" where
  "empty_world c =
     \<lparr>clock = c, ticks = 0, heap = [], pending_requests = [], approved_requests = [],
      rejected_requests = [], errors = [], competitors_json = NotFound, reports_dir = Some [],
      write_error = None, browser_calls = 0, unicode_decimal = digit_table\<rparr>"

text \<open>
  A clock whose \<open>k\<close>-th reading is noon of the \<open>k\<close>-th day after 18 February 2026; a handler
  that has been asked once, for a URL; the same after \<^verbatim>\<open>clear_requests\<close>; and a handler that
  was asked for a URL, rejected that request, was asked for a command and then polled with
  \<^verbatim>\<open>get_pending_request\<close> a day later.
\<close>

definition daily_clock :: "nat \<Rightarrow> datetime" where
  "daily_clock k = \<lparr>year = 2026, month = 2, day = 18 + k, hour = 12, minute = 0, second = 0,
                     microsecond = 0\<rparr>"

definition asked_world :: world where
  "asked_world =
     snd (request_url_approval (py_repr shift_env) (PStr ''https://example.com'')
            (empty_world daily_clock))"

definition cleared_world :: world where
  "cleared_world = clear_requests asked_world"

definition busy_calls :: "handler_call list" where
  "busy_calls =
     [RequestUrlApproval (PStr ''https://example.com''), RejectRequest 0 ''user'',
      RequestTerminalApproval ''ls'', GetPendingRequest]"

definition busy_world :: world where
  "busy_world = handler_run (py_repr shift_env) busy_calls (empty_world daily_clock)"

text \<open>
  A reports directory with a report of 11 February, a file of another name, a report of
  17 February whose year is written in full-width digits, a report of 18 February, a
  report named for 30 February and a report of 1 March; and midnight of 18 February.
\<close>

definition fullwidth_report :: string where
  "fullwidth_report =
     fullwidth 2 @ fullwidth 0 @ fullwidth 2 @ fullwidth 6 @ ''-02-17_Intelligence.md''"

definition shelf_world :: world where
  "shelf_world =
     (empty_world (stopped_clock (noon 18)))
       \<lparr>reports_dir :=
          Some [(''2026-02-11_Intelligence.md'', Some ''old''),
                (''notes.md'', Some ''notes''),
                (fullwidth_report, Some ''wide''),
                (''2026-02-18_Intelligence.md'', Some ''today''),
                (''2026-02-30_Intelligence.md'', Some ''no such day''),
                (''2026-03-01_Intelligence.md'', Some ''later'')]\<rparr>"

definition midnight :: "nat \<Rightarrow> datetime" where
  "midnight d = \<lparr>year = 2026, month = 2, day = d, hour = 0, minute = 0, second = 0, microsecond = 0\<rparr>"

text \<open>
  A run over two configured competitors, Acme and Bolt, with an empty reports directory: the
  first fetch returns text, every later fetch returns no content; the embedding model is
  not available.
\<close>

definition pair_env :: env where
  "pair_env =
     \<lparr>py_repr = (\<lambda>v. ''?''),
      extract_text_from_url =
        (\<lambda>k url. if k = 0 then Inr (Some ''Acme builds rockets'') else Inr None),
      encode = (\<lambda>texts. Inl ''model unavailable''),
      cosine_similarity = (\<lambda>a b. Inl ''model unavailable''),
      float_add = (\<lambda>x y. x + y),
      float_div = (\<lambda>x y. x / y),
      float_mul = (\<lambda>x y. x * y),
      float_round = round_examples\<rparr>"

definition acme :: pydict where
  "acme = [(''name'', PStr ''Acme''), (''url'', PStr ''https://acme.example'')]"

definition bolt :: pydict where
  "bolt = [(''name'', PStr ''Bolt''), (''url'', PStr ''https://bolt.example'')]"

definition pair_world :: world where
  "pair_world =
     (empty_world (stopped_clock (noon 18)))
       \<lparr>competitors_json := Loaded (PDict [(''competitors'', PList [PDict acme, PDict bolt])])\<rparr>"

text \<open>
  The two result dictionaries of that run, and a world whose configuration file lists no
  competitor.
\<close>

definition acme_result :: pydict where
  "acme_result =
     [(''competitor_name'', PStr ''Acme''), (''url'', PStr ''https://acme.example''),
      (''analysis_date'', PStr ''2026-02-18''), (''is_strategic_shift'', PBool False),
      (''findings'', PStr ''New competitor - no historical data for comparison''),
      (''similarity_percentage'', PInt 0), (''shift_classification'', PStr ''new_competitor''),
      (''baseline_date'', PStr ''N/A''),
      (''detailed_changes'', PStr ''No historical data available'')]"

definition bolt_result :: pydict where
  "bolt_result =
     [(''competitor_name'', PStr ''Bolt''), (''url'', PStr ''https://bolt.example''),
      (''analysis_date'', PStr ''2026-02-18''), (''is_strategic_shift'', PBool False),
      (''findings'', PStr ''Failed to extract text'')]"

definition unlisted_world :: world where
  "unlisted_world =
     (empty_world (stopped_clock (noon 18)))
       \<lparr>competitors_json := Loaded (PDict [(''competitors'', PList [])])\<rparr>"

section \<open>The drift classifier\<close>

lemma double_0_80_bounds: "8 / 10 < double_0_80 \<and> double_0_80 < 8 / 10 + 1 / 10 ^ 16"
  by (simp add: double_0_80_def)

lemma float_accurate_bound:
  assumes acc: "float_accurate E s" and lo: "- 1 \<le> s" and hi: "s \<le> 1"
  shows "\<bar>float_round E (float_mul E (float_div E (float_add E s 1) 2) 100) 2 - (s + 1) / 2 * 100\<bar>
           \<le> 1 / 200 + 1 / 50000"
proof -
  define a where "a = float_add E s 1"
  define b where "b = float_div E a 2"
  define c where "c = float_mul E b 100"
  define r where "r = float_round E c 2"
  have h: "\<bar>a - (s + 1)\<bar> \<le> \<bar>s + 1\<bar> / 2 ^ 24" "\<bar>b - a / 2\<bar> \<le> \<bar>a / 2\<bar> / 2 ^ 24 + 1 / 2 ^ 100"
          "\<bar>c - b * 100\<bar> \<le> \<bar>b * 100\<bar> / 2 ^ 24 + 1 / 2 ^ 100" "\<bar>r - c\<bar> \<le> 1 / 200 + 1 / 2 ^ 40"
    using acc unfolding float_accurate_def Let_def a_def b_def c_def r_def by simp_all
  have s2: "\<bar>s + 1\<bar> \<le> 2" using lo hi by simp
  have ea: "\<bar>a - (s + 1)\<bar> \<le> 1 / 8388608" using h(1) s2 by (simp add: field_simps)
  have a3: "\<bar>a\<bar> \<le> 201 / 100" using ea s2 by linarith
  have eb: "\<bar>b - a / 2\<bar> \<le> 102 / 1677721600" using h(2) a3 by (simp add: field_simps)
  have b2: "\<bar>b\<bar> \<le> 101 / 100" using eb a3 by linarith
  have ec: "\<bar>c - b * 100\<bar> \<le> 102 / 16777216" using h(3) b2 by (simp add: field_simps)
  have er: "\<bar>r - c\<bar> \<le> 1 / 200 + 1 / 1099511627776" using h(4) by simp
  have u: "r - c \<le> 1 / 200 + 1 / 1099511627776" "c - r \<le> 1 / 200 + 1 / 1099511627776"
          "c - b * 100 \<le> 102 / 16777216" "b * 100 - c \<le> 102 / 16777216"
          "b - a / 2 \<le> 102 / 1677721600" "a / 2 - b \<le> 102 / 1677721600"
          "a - (s + 1) \<le> 1 / 8388608" "(s + 1) - a \<le> 1 / 8388608"
    using er ec eb ea by linarith+
  have "r - (s + 1) / 2 * 100 \<le> 1 / 200 + 1 / 50000"
       "(s + 1) / 2 * 100 - r \<le> 1 / 200 + 1 / 50000"
    using u by (simp_all add: field_simps)
  then have "\<bar>r - (s + 1) / 2 * 100\<bar> \<le> 1 / 200 + 1 / 50000" by linarith
  then show ?thesis unfolding r_def c_def b_def a_def .
qed

lemma exact_examples:
  assumes "exact_on_examples E"
  shows "float_round E (float_mul E (float_div E (float_add E 1 1) 2) 100) 2 = 100"
    and "float_round E (float_mul E (float_div E (float_add E 0 1) 2) 100) 2 = 50"
    and "float_round E (float_mul E (float_div E (float_add E (- 1) 1) 2) 100) 2 = 0"
proof -
  have f: "float_add E 1 1 = 2" "float_add E 0 1 = 1" "float_add E (- 1) 1 = 0"
          "float_div E 2 2 = 1" "float_div E 1 2 = 1 / 2" "float_div E 0 2 = 0"
          "float_mul E 1 100 = 100" "float_mul E (1 / 2) 100 = 50" "float_mul E 0 100 = 0"
          "float_round E 100 2 = 100" "float_round E 50 2 = 50" "float_round E 0 2 = 0"
    using assms unfolding exact_on_examples_def by blast+
  show "float_round E (float_mul E (float_div E (float_add E 1 1) 2) 100) 2 = 100"
    by (simp only: f)
  show "float_round E (float_mul E (float_div E (float_add E 0 1) 2) 100) 2 = 50"
    by (simp only: f)
  show "float_round E (float_mul E (float_div E (float_add E (- 1) 1) 2) 100) 2 = 0"
    by (simp only: f)
qed

text \<open>
  C5, as the code has it. When the embeddings of the two texts have cosine similarity \<open>s\<close>,
  \<^verbatim>\<open>calculate_similarity\<close> reports what \<^verbatim>\<open>round(\<^emph>\<open>p\<close>, 2)\<close> returns for the percentage
  \<open>p\<close> that floating-point arithmetic gives for \<open>(s + 1) / 2 * 100\<close>. With arithmetic as
  accurate as that of 32-bit floats and \<open>s\<close> between -1 and 1, the reported value is within
  0.00502 of the exact percentage; with arithmetic that is exact on the numbers it meets
  there, it is 100, 50 and 0 for \<open>s = 1\<close>, \<open>0\<close> and \<open>-1\<close>. The pair is a
  \<^verbatim>\<open>Strategic_Shift\<close> exactly when \<open>s\<close> is below the threshold, else a \<^verbatim>\<open>minor_update\<close>;
  the threshold is the float 0.80, which lies between 0.8 and \<open>0.8 + 10^-16\<close>, and it is
  compared with the raw similarity \<open>s\<close>, not with the percentage.
\<close>

theorem calculate_similarity_float_percentage:
  assumes "encode E [text1, text2] = Inr (e0 # e1 # es)"
      and "cosine_similarity E e0 e1 = Inr s"
  shows "\<exists>d. calculate_similarity E text1 text2 = Inr d
           \<and> map_of d ''similarity_percentage''
               = Some (PFloat (float_round E (float_mul E (float_div E (float_add E s 1) 2) 100) 2))
           \<and> (float_accurate E s \<and> - 1 \<le> s \<and> s \<le> 1 \<longrightarrow>
                \<bar>float_round E (float_mul E (float_div E (float_add E s 1) 2) 100) 2
                   - (s + 1) / 2 * 100\<bar> \<le> 1 / 200 + 1 / 50000)
           \<and> (exact_on_examples E \<longrightarrow>
                (s = 1 \<longrightarrow> map_of d ''similarity_percentage'' = Some (PFloat 100))
                \<and> (s = 0 \<longrightarrow> map_of d ''similarity_percentage'' = Some (PFloat 50))
                \<and> (s = - 1 \<longrightarrow> map_of d ''similarity_percentage'' = Some (PFloat 0)))
           \<and> map_of d ''threshold'' = Some (PFloat double_0_80)
           \<and> 8 / 10 < double_0_80 \<and> double_0_80 < 8 / 10 + 1 / 10 ^ 16
           \<and> map_of d ''is_strategic_shift'' = Some (PBool (s < double_0_80))
           \<and> map_of d ''shift_classification''
               = Some (PStr (if s < double_0_80 then ''Strategic_Shift'' else ''minor_update''))"
proof -
  define p where "p = float_round E (float_mul E (float_div E (float_add E s 1) 2) 100) 2"
  have x: "exact_on_examples E \<longrightarrow> (s = 1 \<longrightarrow> p = 100) \<and> (s = 0 \<longrightarrow> p = 50) \<and> (s = - 1 \<longrightarrow> p = 0)"
    unfolding p_def using exact_examples[of E] by blast
  have y: "float_accurate E s \<and> - 1 \<le> s \<and> s \<le> 1 \<longrightarrow> \<bar>p - (s + 1) / 2 * 100\<bar> \<le> 1 / 200 + 1 / 50000"
    unfolding p_def using float_accurate_bound[of E s] by blast
  have c: "calculate_similarity E text1 text2
             = Inr [(''similarity_percentage'', PFloat p),
                    (''cosine_similarity'', PFloat (float_round E s 4)),
                    (''threshold'', PFloat double_0_80),
                    (''shift_classification'',
                       PStr (if s < double_0_80 then ''Strategic_Shift'' else ''minor_update'')),
                    (''is_strategic_shift'', PBool (s < double_0_80)),
                    (''text1_embedding'', PList (map PFloat e0)),
                    (''text2_embedding'', PList (map PFloat e1))]"
    using assms unfolding p_def by (simp add: calculate_similarity_def Let_def)
  show ?thesis
    unfolding c p_def[symmetric] using x y double_0_80_bounds by simp
qed

theorem calculate_similarity_float_percentage_witness:
  "(\<exists>d. calculate_similarity same_env ''new'' ''old'' = Inr d
      \<and> map_of d ''similarity_percentage'' = Some (PFloat 100)
      \<and> map_of d ''shift_classification'' = Some (PStr ''minor_update''))
   \<and> (\<exists>d. calculate_similarity shift_env ''new'' ''old'' = Inr d
      \<and> map_of d ''similarity_percentage'' = Some (PFloat (3521955646092083 / 70368744177664))
      \<and> \<bar>3521955646092083 / 70368744177664 - (1 / 1024 + 1) / 2 * 100\<bar> \<le> (1 / 200 + 1 / 50000 :: real)
      \<and> map_of d ''shift_classification'' = Some (PStr ''Strategic_Shift''))"
proof -
  have x: "exact_on_examples same_env"
    by (simp add: exact_on_examples_def same_env_def shift_env_def round_examples_def)
  have y: "float_accurate shift_env (1 / 1024)"
    by (simp add: float_accurate_def shift_env_def round_examples_def Let_def)
  have t: "double_0_80 \<le> 1" "1 / 1024 < double_0_80" by (simp_all add: double_0_80_def)
  show ?thesis
    using calculate_similarity_float_percentage
            [of same_env "''new''" "''old''" "[5, 12]" "[1, 0]" "[]" 1]
          calculate_similarity_float_percentage
            [of shift_env "''new''" "''old''" "[5, 12]" "[1, 0]" "[]" "1 / 1024"]
          x y t
    by (auto simp add: shift_env_def same_env_def round_examples_def)
qed

text \<open>
  C5 as stated fails: for the similarity \<open>1/1024\<close> the percentage is 50.048828125, and the
  result reports the float 50.05.
\<close>

theorem calculate_similarity_exact_percentage_counterexample:
  "map_of (projr (calculate_similarity shift_env ''new'' ''old'')) ''similarity_percentage''
     = Some (PFloat (3521955646092083 / 70368744177664))
   \<and> (3521955646092083 / 70368744177664 :: real) \<noteq> (1 / 1024 + 1) / 2 * 100"
  by (simp add: calculate_similarity_def shift_env_def Let_def round_examples_def)

section \<open>The report compiler\<close>

lemma length_strftime_ymd: "length (strftime_ymd d) = 10"
  by (simp add: strftime_ymd_def pad4_def pad2_def)

text \<open>
  C1, as the code has it. \<^verbatim>\<open>generate_report\<close> is a function of its two arguments and of
  the calendar date it reads from the clock: two calls with equal results and errors give the
  same text exactly when the clock shows the same date at both calls, and the date in the
  title of the report is the date on the clock at the call.
\<close>

theorem generate_report_reads_clock_date:
  "(fst (generate_report E results errs w1) = fst (generate_report E results errs w2)
      \<longleftrightarrow> strftime_ymd (clock w1 (ticks w1)) = strftime_ymd (clock w2 (ticks w2)))
   \<and> take 33 (fst (generate_report E results errs w1))
       = ''# Intelligence Report: '' @ strftime_ymd (clock w1 (ticks w1))"
  by (simp add: generate_report_def datetime_now_def report_text_def Let_def length_strftime_ymd)

theorem generate_report_reads_clock_date_witness:
  "fst (generate_report shift_env [] None (empty_world (stopped_clock (noon 18))))
     = fst (generate_report shift_env [] None (empty_world (stopped_clock (noon 18))))
   \<and> take 33 (fst (generate_report shift_env [] None (empty_world (stopped_clock (noon 18)))))
       = ''# Intelligence Report: 2026-02-18''"
  using generate_report_reads_clock_date
     [of shift_env "[]" None "empty_world (stopped_clock (noon 18))"
         "empty_world (stopped_clock (noon 18))"]
  by (simp add: empty_world_def stopped_clock_def noon_def strftime_ymd_def pad4_def pad2_def
        digit_char_def)

text \<open>
  C1 as stated fails: the same (empty) results and errors compiled on 18 and on 19 February
  give different texts.
\<close>

theorem generate_report_pure_counterexample:
  "fst (generate_report shift_env [] None (empty_world (stopped_clock (noon 18))))
     \<noteq> fst (generate_report shift_env [] None (empty_world (stopped_clock (noon 19))))"
  by (simp add: generate_report_def datetime_now_def report_text_def Let_def
        empty_world_def stopped_clock_def noon_def strftime_ymd_def pad4_def pad2_def
        digit_char_def)

section \<open>The approval handler\<close>

lemma sweep_frame:
  "length (heap (expire_sweep rs w)) = length (heap w)
   \<and> pending_requests (expire_sweep rs w) = pending_requests w
   \<and> approved_requests (expire_sweep rs w) = approved_requests w
   \<and> clock (expire_sweep rs w) = clock w
   \<and> ticks w \<le> ticks (expire_sweep rs w)"
proof (induction rs arbitrary: w)
  case Nil
  show ?case by simp
next
  case (Cons r rs)
  show ?case
    using Cons.IH[of "snd (is_expired r w)"]
          Cons.IH[of "(snd (is_expired r w))\<lparr>heap := (heap (snd (is_expired r w)))
                        [r := (heap (snd (is_expired r w)) ! r)\<lparr>status := EXPIRED\<rparr>],
                      rejected_requests := rejected_requests (snd (is_expired r w)) @ [r]\<rparr>"]
    by (auto simp add: is_expired_def datetime_now_def Let_def split: prod.splits if_splits)
qed

lemma sweep_status:
  "status (heap (expire_sweep rs w) ! r) = status (heap w ! r)
   \<or> (status (heap w ! r) = PENDING \<and> status (heap (expire_sweep rs w) ! r) = EXPIRED
       \<and> r \<in> set rs)"
proof (induction rs arbitrary: w)
  case Nil
  show ?case by simp
next
  case (Cons x rs)
  let ?w1 = "snd (is_expired x w)"
  let ?w2 = "?w1\<lparr>heap := (heap ?w1)[x := (heap ?w1 ! x)\<lparr>status := EXPIRED\<rparr>],
                  rejected_requests := rejected_requests ?w1 @ [x]\<rparr>"
  have h1: "heap ?w1 = heap w"
    by (simp add: is_expired_def datetime_now_def Let_def)
  show ?case
  proof (cases "fst (is_expired x w)")
    case True
    then have px: "status (heap w ! x) = PENDING"
      by (auto simp add: is_expired_def split: if_splits)
    have e: "expire_sweep (x # rs) w = expire_sweep rs ?w2"
      using True by (simp add: case_prod_beta)
    show ?thesis
    proof (cases "r = x")
      case True
      show ?thesis
        using Cons.IH[of ?w2] px h1 unfolding e True
        by (cases "x < length (heap w)") (auto simp add: list_update_beyond)
    next
      case False
      show ?thesis
        using Cons.IH[of ?w2] h1 False unfolding e by auto
    qed
  next
    case False
    then have e: "expire_sweep (x # rs) w = expire_sweep rs ?w1"
      by (simp add: case_prod_beta)
    show ?thesis using Cons.IH[of ?w1] h1 unfolding e by auto
  qed
qed

lemma sweep_status_kept:
  "status (heap w ! r) \<noteq> PENDING \<or> r \<notin> set rs
     \<Longrightarrow> status (heap (expire_sweep rs w) ! r) = status (heap w ! r)"
  using sweep_status[of rs w r] by auto

lemma sweep_request_fields:
  "requested_at (heap (expire_sweep rs w) ! r) = requested_at (heap w ! r)
   \<and> timeout_seconds (heap (expire_sweep rs w) ! r) = timeout_seconds (heap w ! r)"
proof (induction rs arbitrary: w)
  case Nil
  show ?case by simp
next
  case (Cons x rs)
  let ?w1 = "snd (is_expired x w)"
  let ?w2 = "?w1\<lparr>heap := (heap ?w1)[x := (heap ?w1 ! x)\<lparr>status := EXPIRED\<rparr>],
                  rejected_requests := rejected_requests ?w1 @ [x]\<rparr>"
  have h1: "heap ?w1 = heap w"
    by (simp add: is_expired_def datetime_now_def Let_def)
  have h2: "requested_at (heap ?w2 ! r) = requested_at (heap w ! r)
            \<and> timeout_seconds (heap ?w2 ! r) = timeout_seconds (heap w ! r)"
    unfolding h1 by (cases "r = x"; cases "x < length (heap w)")
                    (simp_all add: list_update_beyond)
  show ?case
    using Cons.IH[of ?w1] Cons.IH[of ?w2] h1 h2
    by (cases "fst (is_expired x w)") (simp_all add: case_prod_beta)
qed

lemma overdue_step:
  assumes "overdue r w" "clock w' = clock w" "ticks w \<le> ticks w'"
      and "requested_at (heap w' ! r) = requested_at (heap w ! r)"
      and "timeout_seconds (heap w' ! r) = timeout_seconds (heap w ! r)"
  shows "overdue r w'"
  using assms unfolding overdue_def by auto

lemma sweep_expires:
  "r \<in> set rs \<Longrightarrow> r < length (heap w) \<Longrightarrow> status (heap w ! r) = PENDING \<Longrightarrow> overdue r w
     \<Longrightarrow> status (heap (expire_sweep rs w) ! r) = EXPIRED"
proof (induction rs arbitrary: w)
  case Nil
  then show ?case by simp
next
  case (Cons x rs)
  let ?w1 = "snd (is_expired x w)"
  let ?w2 = "?w1\<lparr>heap := (heap ?w1)[x := (heap ?w1 ! x)\<lparr>status := EXPIRED\<rparr>],
                  rejected_requests := rejected_requests ?w1 @ [x]\<rparr>"
  have h1: "heap ?w1 = heap w" "clock ?w1 = clock w" "ticks w \<le> ticks ?w1"
    by (simp_all add: is_expired_def datetime_now_def Let_def)
  show ?case
  proof (cases "x = r")
    case True
    have "fst (is_expired r w)"
      using Cons.prems unfolding overdue_def is_expired_def datetime_now_def
      by (simp add: Let_def)
    then have e: "expire_sweep (x # rs) w = expire_sweep rs ?w2"
      using True by (simp add: case_prod_beta)
    have "status (heap ?w2 ! r) = EXPIRED"
      using Cons.prems True h1 by simp
    then show ?thesis
      unfolding e using sweep_status_kept[of ?w2 r rs] by simp
  next
    case False
    then have rin: "r \<in> set rs" using Cons.prems by simp
    have o1: "overdue r ?w1"
      using overdue_step[OF Cons.prems(4), of ?w1] h1 by simp
    show ?thesis
    proof (cases "fst (is_expired x w)")
      case True
      then have e: "expire_sweep (x # rs) w = expire_sweep rs ?w2"
        by (simp add: case_prod_beta)
      have o2: "overdue r ?w2"
        using overdue_step[OF Cons.prems(4), of ?w2] h1 False by simp
      show ?thesis
        unfolding e using Cons.IH[of ?w2] rin o2 Cons.prems False h1 by simp
    next
      case no: False
      then have e: "expire_sweep (x # rs) w = expire_sweep rs ?w1"
        by (simp add: case_prod_beta)
      show ?thesis
        unfolding e using Cons.IH[of ?w1] rin o1 Cons.prems h1 by simp
    qed
  qed
qed

lemma get_pending_subset:
  "set (pending_requests (snd (get_pending_request w))) \<subseteq> set (pending_requests w)"
  using sweep_frame[of "pending_requests w" w]
  by (auto simp add: get_pending_request_def Let_def)

lemma get_pending_length_heap:
  "length (heap (snd (get_pending_request w))) = length (heap w)"
  using sweep_frame[of "pending_requests w" w]
  by (auto simp add: get_pending_request_def Let_def)

lemma get_pending_returns_pending:
  "fst (get_pending_request w) = Some r \<Longrightarrow> r \<in> set (pending_requests w)"
proof -
  assume a: "fst (get_pending_request w) = Some r"
  let ?w1 = "expire_sweep (pending_requests w) w"
  let ?f = "filter (\<lambda>r. status (heap ?w1 ! r) = PENDING) (pending_requests ?w1)"
  from a have ne: "?f \<noteq> []" and r: "r = hd ?f"
    by (auto simp add: get_pending_request_def Let_def split: if_splits)
  have "hd ?f \<in> set ?f" using ne by (rule hd_in_set)
  moreover have "set ?f \<subseteq> set (pending_requests w)"
    using sweep_frame[of "pending_requests w" w] by auto
  ultimately show ?thesis using r by blast
qed

lemma step_keeps_out:
  assumes "r < length (heap w)" "r \<notin> set (pending_requests w)"
  shows "r < length (heap (handler_step R c w)) \<and> r \<notin> set (pending_requests (handler_step R c w))"
proof (cases c)
  case (RequestTerminalApproval x1)
  then show ?thesis using assms
    by (auto simp add: request_terminal_approval_def ApprovalRequest_init_def datetime_now_def Let_def)
next
  case (RequestFileApproval x21 x22)
  then show ?thesis using assms
    by (auto simp add: request_file_approval_def ApprovalRequest_init_def datetime_now_def Let_def)
next
  case (RequestUrlApproval x3)
  then show ?thesis using assms
    by (auto simp add: request_url_approval_def ApprovalRequest_init_def datetime_now_def Let_def)
next
  case GetPendingRequest
  then show ?thesis using assms get_pending_subset[of w] get_pending_length_heap[of w] by auto
next
  case (ApproveRequest x51 x52)
  then show ?thesis using assms
    by (auto simp add: approve_request_def approve_def datetime_now_def Let_def
             dest: notin_set_remove1)
next
  case (RejectRequest x61 x62)
  then show ?thesis using assms
    by (auto simp add: reject_request_def reject_def datetime_now_def Let_def
             dest: notin_set_remove1)
next
  case ClearRequests
  then show ?thesis using assms by (simp add: clear_requests_def)
qed

lemma run_keeps_out:
  "r < length (heap w) \<Longrightarrow> r \<notin> set (pending_requests w)
     \<Longrightarrow> r < length (heap (handler_run R cs w)) \<and> r \<notin> set (pending_requests (handler_run R cs w))"
proof (induction cs arbitrary: w)
  case Nil
  then show ?case by simp
next
  case (Cons c cs)
  then show ?case using step_keeps_out[of r w R c] by simp
qed

lemma get_pending_status_kept:
  "status (heap w ! r) \<noteq> PENDING
     \<Longrightarrow> status (heap (snd (get_pending_request w)) ! r) = status (heap w ! r)"
  using sweep_status_kept[of w r "pending_requests w"]
  by (auto simp add: get_pending_request_def Let_def)

lemma step_keeps_status:
  assumes "r < length (heap w)" "status (heap w ! r) = s" "s \<noteq> PENDING"
  shows "r < length (heap (handler_step R c w)) \<and> status (heap (handler_step R c w) ! r) = s"
proof (cases c)
  case (RequestTerminalApproval x1)
  then show ?thesis using assms
    by (auto simp add: request_terminal_approval_def ApprovalRequest_init_def datetime_now_def
          Let_def nth_append)
next
  case (RequestFileApproval x21 x22)
  then show ?thesis using assms
    by (auto simp add: request_file_approval_def ApprovalRequest_init_def datetime_now_def
          Let_def nth_append)
next
  case (RequestUrlApproval x3)
  then show ?thesis using assms
    by (auto simp add: request_url_approval_def ApprovalRequest_init_def datetime_now_def
          Let_def nth_append)
next
  case GetPendingRequest
  then show ?thesis
    using assms get_pending_status_kept[of w r] get_pending_length_heap[of w] by auto
next
  case (ApproveRequest x y)
  then show ?thesis using assms
    by (cases "x = r")
       (auto simp add: approve_request_def approve_def datetime_now_def Let_def)
next
  case (RejectRequest x y)
  then show ?thesis using assms
    by (cases "x = r")
       (auto simp add: reject_request_def reject_def datetime_now_def Let_def)
next
  case ClearRequests
  then show ?thesis using assms by (simp add: clear_requests_def)
qed

lemma run_keeps_status:
  "r < length (heap w) \<Longrightarrow> status (heap w ! r) = s \<Longrightarrow> s \<noteq> PENDING
     \<Longrightarrow> status (heap (handler_run R cs w) ! r) = s"
proof (induction cs arbitrary: w)
  case Nil
  then show ?case by simp
next
  case (Cons c cs)
  then show ?case using step_keeps_status[of r w s R c] by simp
qed

text \<open>
  C8. A request that is in the pending collection with status \<^verbatim>\<open>pending\<close> and whose
  elapsed time exceeds its timeout: the next \<^verbatim>\<open>get_pending_request\<close> sets its status to
  \<^verbatim>\<open>expired\<close>, removes it from the pending collection and does not return it; after any
  further sequence of calls to the handler, \<^verbatim>\<open>get_pending_request\<close> still does not return
  it and its status is still \<^verbatim>\<open>expired\<close>.
\<close>

theorem expired_request_never_pending_again:
  assumes "r \<in> set (pending_requests w)" and "r < length (heap w)"
      and "status (heap w ! r) = PENDING" and "overdue r w"
  shows "status (heap (snd (get_pending_request w)) ! r) = EXPIRED
       \<and> r \<notin> set (pending_requests (snd (get_pending_request w)))
       \<and> fst (get_pending_request w) \<noteq> Some r
       \<and> (\<forall>cs. fst (get_pending_request (handler_run R cs (snd (get_pending_request w)))) \<noteq> Some r
               \<and> status (heap (handler_run R cs (snd (get_pending_request w))) ! r) = EXPIRED)"
proof -
  let ?w1 = "expire_sweep (pending_requests w) w"
  let ?w' = "snd (get_pending_request w)"
  have ne: "pending_requests w \<noteq> []" using assms(1) by auto
  have ex: "status (heap ?w1 ! r) = EXPIRED"
    using sweep_expires[OF assms] .
  have hp: "heap ?w' = heap ?w1"
    using ne by (simp add: get_pending_request_def Let_def)
  have pp: "pending_requests ?w' = filter (\<lambda>r. status (heap ?w1 ! r) = PENDING) (pending_requests w)"
    using ne sweep_frame[of "pending_requests w" w] by (simp add: get_pending_request_def Let_def)
  have s1: "status (heap ?w' ! r) = EXPIRED" using ex hp by simp
  have s2: "r \<notin> set (pending_requests ?w')" using ex pp by simp
  have l: "r < length (heap ?w')" using assms(2) get_pending_length_heap[of w] by simp
  have s3: "fst (get_pending_request w) \<noteq> Some r"
  proof
    assume "fst (get_pending_request w) = Some r"
    then have "r = hd (pending_requests ?w')" "pending_requests ?w' \<noteq> []"
      by (auto simp add: get_pending_request_def Let_def split: if_splits)
    then have "r \<in> set (pending_requests ?w')" by simp
    with s2 show False by simp
  qed
  have s4: "fst (get_pending_request (handler_run R cs ?w')) \<noteq> Some r" for cs
    using run_keeps_out[OF l s2, of R cs] get_pending_returns_pending by blast
  have s5: "status (heap (handler_run R cs ?w') ! r) = EXPIRED" for cs
    using run_keeps_status[OF l s1, of R cs] by simp
  show ?thesis using s1 s2 s3 s4 s5 by blast
qed

lemma asked_world_eq:
  "asked_world =
     \<lparr>clock = daily_clock, ticks = 1,
      heap = [\<lparr>action_type = ''url'', description = ''Browse URL: https://example.com'',
               action_data = [(''url'', PStr ''https://example.com'')], timeout_seconds = 300,
               status = PENDING, requested_at = daily_clock 0, approved_at = None,
               rejected_at = None, approver = None\<rparr>],
      pending_requests = [0], approved_requests = [], rejected_requests = [], errors = [],
      competitors_json = NotFound, reports_dir = Some [], write_error = None,
      browser_calls = 0, unicode_decimal = digit_table\<rparr>"
  by (simp add: asked_world_def request_url_approval_def ApprovalRequest_init_def
        datetime_now_def empty_world_def Let_def)

lemma asked_world_overdue: "overdue 0 asked_world"
  unfolding overdue_def asked_world_eq
  by (simp add: daily_clock_def total_seconds_def dt_sub_def toordinal_def
        days_before_year_def days_before_month_def is_leap_def Let_def)

theorem expired_request_never_pending_again_witness:
  "status (heap (snd (get_pending_request asked_world)) ! 0) = EXPIRED
   \<and> 0 \<notin> set (pending_requests (snd (get_pending_request asked_world)))
   \<and> fst (get_pending_request asked_world) \<noteq> Some 0
   \<and> fst (get_pending_request
            (handler_run (py_repr shift_env)
               [RequestTerminalApproval ''ls'', ApproveRequest 0 ''user'', GetPendingRequest]
               (snd (get_pending_request asked_world)))) \<noteq> Some 0"
proof -
  have h1: "0 \<in> set (pending_requests asked_world)" by (simp add: asked_world_eq)
  have h2: "0 < length (heap asked_world)" by (simp add: asked_world_eq)
  have h3: "status (heap asked_world ! 0) = PENDING" by (simp add: asked_world_eq)
  show ?thesis
    using expired_request_never_pending_again[OF h1 h2 h3 asked_world_overdue, of "py_repr shift_env"]
    by blast
qed

lemma approve_not_pending:
  "status (heap w ! r) \<noteq> PENDING \<Longrightarrow> approve r a w = (False, w) \<and> reject r a w = (False, w)"
  by (simp add: approve_def reject_def)

lemma resolve_not_pending:
  "status (heap w ! r) \<noteq> PENDING
     \<Longrightarrow> approve_request r a w = (False, w) \<and> reject_request r a w = (False, w)"
  by (simp add: approve_request_def reject_request_def approve_def reject_def)

lemma resolve_untracked:
  "r \<notin> set (pending_requests w)
     \<Longrightarrow> approve_request r a w = (False, w) \<and> reject_request r a w = (False, w)"
  by (simp add: approve_request_def reject_request_def)

lemma approve_request_pending:
  assumes "status (heap w ! r) = PENDING" "r \<in> set (pending_requests w)" "r < length (heap w)"
  shows "fst (approve_request r a w)
       \<and> heap (snd (approve_request r a w))
           = (heap w)[r := (heap w ! r)\<lparr>status := APPROVED,
                                        approved_at := Some (clock w (ticks w)),
                                        approver := Some a\<rparr>]
       \<and> pending_requests (snd (approve_request r a w)) = remove1 r (pending_requests w)
       \<and> approved_requests (snd (approve_request r a w)) = approved_requests w @ [r]
       \<and> rejected_requests (snd (approve_request r a w)) = rejected_requests w"
  using assms by (simp add: approve_request_def approve_def datetime_now_def Let_def)

lemma reject_request_pending:
  assumes "status (heap w ! r) = PENDING" "r \<in> set (pending_requests w)" "r < length (heap w)"
  shows "fst (reject_request r a w)
       \<and> heap (snd (reject_request r a w))
           = (heap w)[r := (heap w ! r)\<lparr>status := REJECTED,
                                        rejected_at := Some (clock w (ticks w)),
                                        approver := Some a\<rparr>]
       \<and> pending_requests (snd (reject_request r a w)) = remove1 r (pending_requests w)
       \<and> rejected_requests (snd (reject_request r a w)) = rejected_requests w @ [r]
       \<and> approved_requests (snd (reject_request r a w)) = approved_requests w"
  using assms by (simp add: reject_request_def reject_def datetime_now_def Let_def)

text \<open>
  C7, as the code has it. On a request whose status is not \<^verbatim>\<open>pending\<close>,
  \<^verbatim>\<open>approve\<close>, \<^verbatim>\<open>reject\<close>, \<^verbatim>\<open>approve_request\<close> and \<^verbatim>\<open>reject_request\<close> return false
  and change nothing. \<^verbatim>\<open>approve_request\<close> and \<^verbatim>\<open>reject_request\<close> also return false,
  changing nothing, on a request that is not in the handler's pending collection. On a request
  in the pending collection with status \<^verbatim>\<open>pending\<close> they return true, set the status to
  \<^verbatim>\<open>approved\<close> or \<^verbatim>\<open>rejected\<close>, record the resolver and the time of the call, and move
  the request to the approved or rejected collection.
\<close>

theorem resolve_request_outcomes:
  "(status (heap w ! r) \<noteq> PENDING \<longrightarrow>
      approve r a w = (False, w) \<and> reject r a w = (False, w)
      \<and> approve_request r a w = (False, w) \<and> reject_request r a w = (False, w))
   \<and> (r \<notin> set (pending_requests w) \<longrightarrow>
        approve_request r a w = (False, w) \<and> reject_request r a w = (False, w))
   \<and> (status (heap w ! r) = PENDING \<and> r \<in> set (pending_requests w) \<and> r < length (heap w) \<longrightarrow>
        fst (approve_request r a w)
        \<and> heap (snd (approve_request r a w))
            = (heap w)[r := (heap w ! r)\<lparr>status := APPROVED,
                                         approved_at := Some (clock w (ticks w)),
                                         approver := Some a\<rparr>]
        \<and> pending_requests (snd (approve_request r a w)) = remove1 r (pending_requests w)
        \<and> approved_requests (snd (approve_request r a w)) = approved_requests w @ [r]
        \<and> rejected_requests (snd (approve_request r a w)) = rejected_requests w
        \<and> fst (reject_request r a w)
        \<and> heap (snd (reject_request r a w))
            = (heap w)[r := (heap w ! r)\<lparr>status := REJECTED,
                                         rejected_at := Some (clock w (ticks w)),
                                         approver := Some a\<rparr>]
        \<and> pending_requests (snd (reject_request r a w)) = remove1 r (pending_requests w)
        \<and> rejected_requests (snd (reject_request r a w)) = rejected_requests w @ [r]
        \<and> approved_requests (snd (reject_request r a w)) = approved_requests w)"
  using approve_not_pending[of w r a] resolve_not_pending[of w r a] resolve_untracked[of r w a]
        approve_request_pending[of w r a] reject_request_pending[of w r a]
  by blast

theorem resolve_request_outcomes_witness:
  "fst (approve_request 0 ''user'' asked_world)
   \<and> status (heap (snd (approve_request 0 ''user'' asked_world)) ! 0) = APPROVED
   \<and> approver (heap (snd (approve_request 0 ''user'' asked_world)) ! 0) = Some ''user''
   \<and> approved_at (heap (snd (approve_request 0 ''user'' asked_world)) ! 0) = Some (daily_clock 1)
   \<and> approved_requests (snd (approve_request 0 ''user'' asked_world)) = [0]
   \<and> reject_request 0 ''other'' (snd (approve_request 0 ''user'' asked_world))
       = (False, snd (approve_request 0 ''user'' asked_world))"
proof -
  have h: "status (heap asked_world ! 0) = PENDING \<and> 0 \<in> set (pending_requests asked_world)
           \<and> 0 < length (heap asked_world)"
    by (simp add: asked_world_eq)
  have a: "fst (approve_request 0 ''user'' asked_world)
           \<and> heap (snd (approve_request 0 ''user'' asked_world))
               = (heap asked_world)[0 := (heap asked_world ! 0)\<lparr>status := APPROVED,
                    approved_at := Some (clock asked_world (ticks asked_world)),
                    approver := Some ''user''\<rparr>]
           \<and> approved_requests (snd (approve_request 0 ''user'' asked_world))
               = approved_requests asked_world @ [0]"
    using resolve_request_outcomes[of asked_world 0 "''user''"] h by blast
  then have s: "status (heap (snd (approve_request 0 ''user'' asked_world)) ! 0) \<noteq> PENDING"
    by (simp add: asked_world_eq)
  have b: "reject_request 0 ''other'' (snd (approve_request 0 ''user'' asked_world))
             = (False, snd (approve_request 0 ''user'' asked_world))"
    using resolve_request_outcomes[of "snd (approve_request 0 ''user'' asked_world)" 0 "''other''"] s
    by blast
  show ?thesis using a b by (simp add: asked_world_eq)
qed

text \<open>
  C7 as stated fails: after \<^verbatim>\<open>clear_requests\<close> the request made before is still
  \<^verbatim>\<open>pending\<close>, and \<^verbatim>\<open>approve_request\<close> and \<^verbatim>\<open>reject_request\<close> return false on it.
\<close>

theorem resolve_pending_request_counterexample:
  "status (heap cleared_world ! 0) = PENDING
   \<and> approve_request 0 ''user'' cleared_world = (False, cleared_world)
   \<and> reject_request 0 ''user'' cleared_world = (False, cleared_world)"
  by (simp add: cleared_world_def asked_world_eq clear_requests_def approve_request_def
        reject_request_def)

lemma sweep_rejected:
  "distinct rs \<Longrightarrow> \<forall>r\<in>set rs. r < length (heap w) \<and> status (heap w ! r) = PENDING
     \<Longrightarrow> rejected_requests (expire_sweep rs w)
           = rejected_requests w
             @ filter (\<lambda>r. status (heap (expire_sweep rs w) ! r) = EXPIRED) rs"
proof (induction rs arbitrary: w)
  case Nil
  show ?case by simp
next
  case (Cons x rs)
  let ?w1 = "snd (is_expired x w)"
  let ?w2 = "?w1\<lparr>heap := (heap ?w1)[x := (heap ?w1 ! x)\<lparr>status := EXPIRED\<rparr>],
                  rejected_requests := rejected_requests ?w1 @ [x]\<rparr>"
  have h1: "heap ?w1 = heap w" "rejected_requests ?w1 = rejected_requests w"
    by (simp_all add: is_expired_def datetime_now_def Let_def)
  have xs: "x \<notin> set rs" "distinct rs" "x < length (heap w)" "status (heap w ! x) = PENDING"
    using Cons.prems by auto
  show ?case
  proof (cases "fst (is_expired x w)")
    case True
    then have e: "expire_sweep (x # rs) w = expire_sweep rs ?w2"
      by (simp add: case_prod_beta)
    have p2: "\<forall>r\<in>set rs. r < length (heap ?w2) \<and> status (heap ?w2 ! r) = PENDING"
      using Cons.prems h1 xs by (auto simp add: nth_list_update)
    have "status (heap ?w2 ! x) = EXPIRED" using xs h1 by simp
    then have fx: "status (heap (expire_sweep rs ?w2) ! x) = EXPIRED"
      using sweep_status_kept[of ?w2 x rs] by simp
    show ?thesis
      unfolding e using Cons.IH[OF xs(2) p2] fx h1 by simp
  next
    case False
    then have e: "expire_sweep (x # rs) w = expire_sweep rs ?w1"
      by (simp add: case_prod_beta)
    have p1: "\<forall>r\<in>set rs. r < length (heap ?w1) \<and> status (heap ?w1 ! r) = PENDING"
      using Cons.prems h1 by auto
    have fx: "status (heap (expire_sweep rs ?w1) ! x) = PENDING"
      using sweep_status_kept[of ?w1 x rs] xs h1 by simp
    show ?thesis
      unfolding e using Cons.IH[OF xs(2) p1] fx h1 by simp
  qed
qed

lemma get_pending_effect:
  assumes "handler_inv w"
  shows "pending_requests (snd (get_pending_request w))
           = filter (\<lambda>r. status (heap (snd (get_pending_request w)) ! r) = PENDING)
               (pending_requests w)"
    and "rejected_requests (snd (get_pending_request w))
           = rejected_requests w
             @ filter (\<lambda>r. status (heap (snd (get_pending_request w)) ! r) = EXPIRED)
                 (pending_requests w)"
    and "approved_requests (snd (get_pending_request w)) = approved_requests w"
proof -
  let ?w1 = "expire_sweep (pending_requests w) w"
  have d: "distinct (pending_requests w)"
     and p: "\<forall>r\<in>set (pending_requests w). r < length (heap w) \<and> status (heap w ! r) = PENDING"
    using assms by (auto simp add: handler_inv_def tracked_def)
  note fr = sweep_frame[of "pending_requests w" w]
  note rj = sweep_rejected[OF d p]
  show "pending_requests (snd (get_pending_request w))
           = filter (\<lambda>r. status (heap (snd (get_pending_request w)) ! r) = PENDING)
               (pending_requests w)"
    using fr by (cases "pending_requests w = []") (simp_all add: get_pending_request_def Let_def)
  show "rejected_requests (snd (get_pending_request w))
           = rejected_requests w
             @ filter (\<lambda>r. status (heap (snd (get_pending_request w)) ! r) = EXPIRED)
                 (pending_requests w)"
    using rj by (cases "pending_requests w = []") (simp_all add: get_pending_request_def Let_def)
  show "approved_requests (snd (get_pending_request w)) = approved_requests w"
    using fr by (cases "pending_requests w = []") (simp_all add: get_pending_request_def Let_def)
qed

lemma get_pending_inv:
  assumes "handler_inv w"
  shows "handler_inv (snd (get_pending_request w))"
proof -
  let ?w' = "snd (get_pending_request w)"
  note eff = get_pending_effect[OF assms]
  have inv: "distinct (pending_requests w)" "distinct (approved_requests w)"
            "distinct (rejected_requests w)"
            "set (pending_requests w) \<inter> set (approved_requests w) = {}"
            "set (pending_requests w) \<inter> set (rejected_requests w) = {}"
            "set (approved_requests w) \<inter> set (rejected_requests w) = {}"
    using assms by (auto simp add: handler_inv_def tracked_def)
  have bnd: "\<forall>r\<in>set (pending_requests w) \<union> set (approved_requests w)
                  \<union> set (rejected_requests w). r < length (heap w)"
    using assms by (auto simp add: handler_inv_def tracked_def)
  have sts: "\<forall>r\<in>set (approved_requests w). status (heap w ! r) = APPROVED"
            "\<forall>r\<in>set (rejected_requests w).
               status (heap w ! r) = REJECTED \<or> status (heap w ! r) = EXPIRED"
    using assms by (auto simp add: handler_inv_def)
  have len: "length (heap ?w') = length (heap w)" by (rule get_pending_length_heap)
  have st: "status (heap ?w' ! r) = status (heap w ! r)
            \<or> (status (heap w ! r) = PENDING \<and> status (heap ?w' ! r) = EXPIRED
                \<and> r \<in> set (pending_requests w))" for r
    using sweep_status[of "pending_requests w" w r]
    by (cases "pending_requests w = []") (simp_all add: get_pending_request_def Let_def)
  have d: "distinct (tracked ?w')"
    unfolding tracked_def eff(1) eff(2) eff(3) using inv by auto
  have b: "\<forall>r\<in>set (tracked ?w'). r < length (heap ?w')"
    unfolding tracked_def eff(1) eff(2) eff(3) len using bnd by auto
  have s1: "\<forall>r\<in>set (pending_requests ?w'). status (heap ?w' ! r) = PENDING"
    by (subst eff(1)) simp
  have s2: "\<forall>r\<in>set (approved_requests ?w'). status (heap ?w' ! r) = APPROVED"
  proof
    fix r assume "r \<in> set (approved_requests ?w')"
    then have a: "r \<in> set (approved_requests w)" by (simp add: eff(3))
    then have "r \<notin> set (pending_requests w)" using inv(4) by blast
    then show "status (heap ?w' ! r) = APPROVED" using st[of r] sts(1) a by auto
  qed
  have s3: "\<forall>r\<in>set (rejected_requests ?w').
              status (heap ?w' ! r) = REJECTED \<or> status (heap ?w' ! r) = EXPIRED"
  proof
    fix r assume "r \<in> set (rejected_requests ?w')"
    then have "r \<in> set (rejected_requests w
                 @ filter (\<lambda>r. status (heap ?w' ! r) = EXPIRED) (pending_requests w))"
      by (subst (asm) eff(2))
    then have "r \<in> set (rejected_requests w) \<or> status (heap ?w' ! r) = EXPIRED"
      by auto
    then show "status (heap ?w' ! r) = REJECTED \<or> status (heap ?w' ! r) = EXPIRED"
      using st[of r] sts(2) by auto
  qed
  show ?thesis unfolding handler_inv_def using d b s1 s2 s3 by blast
qed

lemma new_request_inv:
  assumes "handler_inv w" "status q = PENDING"
  shows "handler_inv (w\<lparr>ticks := t, heap := heap w @ [q],
                          pending_requests := pending_requests w @ [length (heap w)]\<rparr>)"
proof -
  have b: "\<forall>r\<in>set (tracked w). r < length (heap w)"
    using assms by (simp add: handler_inv_def)
  then have n: "length (heap w) \<notin> set (tracked w)" by auto
  show ?thesis
    using assms b n unfolding handler_inv_def tracked_def
    by (auto simp add: nth_append less_Suc_eq)
qed

lemma request_inv:
  assumes "handler_inv w"
  shows "handler_inv (snd (request_terminal_approval command w))"
        "handler_inv (snd (request_file_approval file_path action w))"
        "handler_inv (snd (request_url_approval R url w))"
  using new_request_inv[OF assms]
  by (simp_all add: request_terminal_approval_def
        request_file_approval_def request_url_approval_def ApprovalRequest_init_def
        datetime_now_def Let_def)

lemma approve_request_inv:
  assumes "handler_inv w"
  shows "handler_inv (snd (approve_request r a w))"
proof (cases "r \<in> set (pending_requests w)")
  case False
  then show ?thesis using assms by (simp add: approve_request_def)
next
  case True
  then have h: "status (heap w ! r) = PENDING" "r < length (heap w)"
    using assms by (auto simp add: handler_inv_def tracked_def)
  note e = approve_request_pending[OF h(1) True h(2), of a]
  show ?thesis
    unfolding handler_inv_def tracked_def using e assms True h
    by (auto simp add: handler_inv_def tracked_def nth_list_update dest: notin_set_remove1)
qed

lemma reject_request_inv:
  assumes "handler_inv w"
  shows "handler_inv (snd (reject_request r a w))"
proof (cases "r \<in> set (pending_requests w)")
  case False
  then show ?thesis using assms by (simp add: reject_request_def)
next
  case True
  then have h: "status (heap w ! r) = PENDING" "r < length (heap w)"
    using assms by (auto simp add: handler_inv_def tracked_def)
  note e = reject_request_pending[OF h(1) True h(2), of a]
  show ?thesis
    unfolding handler_inv_def tracked_def using e assms True h
    by (auto simp add: handler_inv_def tracked_def nth_list_update dest: notin_set_remove1)
qed

lemma step_inv: "handler_inv w \<Longrightarrow> handler_inv (handler_step R c w)"
  using request_inv get_pending_inv approve_request_inv reject_request_inv
  by (cases c) (auto simp add: clear_requests_def handler_inv_def tracked_def)

lemma run_inv: "handler_inv w \<Longrightarrow> handler_inv (handler_run R cs w)"
  by (induction cs arbitrary: w) (auto simp add: step_inv)

lemma length_two_filters:
  "\<forall>x\<in>set xs. P x \<or> Q x \<Longrightarrow> \<forall>x\<in>set xs. \<not> (P x \<and> Q x)
     \<Longrightarrow> length xs = length (filter P xs) + length (filter Q xs)"
  by (induction xs) auto

lemma inv_rejected_count:
  assumes "handler_inv w"
  shows "get_rejected_count w
           = length (filter (\<lambda>r. status (heap w ! r) = REJECTED) (tracked w))
             + length (filter (\<lambda>r. status (heap w ! r) = EXPIRED) (tracked w))"
proof -
  have p: "filter (\<lambda>r. status (heap w ! r) = REJECTED) (pending_requests w) = []"
          "filter (\<lambda>r. status (heap w ! r) = EXPIRED) (pending_requests w) = []"
          "filter (\<lambda>r. status (heap w ! r) = REJECTED) (approved_requests w) = []"
          "filter (\<lambda>r. status (heap w ! r) = EXPIRED) (approved_requests w) = []"
    using assms by (auto simp add: handler_inv_def filter_empty_conv)
  have "length (rejected_requests w)
          = length (filter (\<lambda>r. status (heap w ! r) = REJECTED) (rejected_requests w))
            + length (filter (\<lambda>r. status (heap w ! r) = EXPIRED) (rejected_requests w))"
    using assms by (intro length_two_filters) (auto simp add: handler_inv_def)
  then show ?thesis using p by (simp add: get_rejected_count_def tracked_def)
qed

text \<open>
  C10. After any sequence of calls on a handler that started with empty collections, no
  request is in two collections or twice in one; \<^verbatim>\<open>get_pending_request\<close> appends to
  \<^verbatim>\<open>rejected_requests\<close> exactly the pending requests whose status it has set to
  \<^verbatim>\<open>expired\<close>; and \<^verbatim>\<open>get_rejected_count\<close> is the number of tracked requests with status
  \<^verbatim>\<open>rejected\<close> plus the number of those with status \<^verbatim>\<open>expired\<close>.
\<close>

theorem rejected_count_includes_expired:
  assumes "pending_requests w0 = []" and "approved_requests w0 = []"
      and "rejected_requests w0 = []"
  shows "distinct (tracked (handler_run R cs w0))
       \<and> rejected_requests (snd (get_pending_request (handler_run R cs w0)))
           = rejected_requests (handler_run R cs w0)
             @ filter (\<lambda>r. status (heap (snd (get_pending_request (handler_run R cs w0))) ! r)
                            = EXPIRED)
                 (pending_requests (handler_run R cs w0))
       \<and> get_rejected_count (handler_run R cs w0)
           = length (filter (\<lambda>r. status (heap (handler_run R cs w0) ! r) = REJECTED)
                       (tracked (handler_run R cs w0)))
             + length (filter (\<lambda>r. status (heap (handler_run R cs w0) ! r) = EXPIRED)
                         (tracked (handler_run R cs w0)))"
proof -
  have "handler_inv w0" using assms by (simp add: handler_inv_def tracked_def)
  then have i: "handler_inv (handler_run R cs w0)" by (rule run_inv)
  show ?thesis
    using i get_pending_effect(2)[OF i] inv_rejected_count[OF i]
    unfolding handler_inv_def by blast
qed

lemma daily_elapsed:
  "total_seconds (dt_sub (daily_clock (j + Suc i)) (daily_clock j)) > 300"
  by (simp add: daily_clock_def total_seconds_def dt_sub_def toordinal_def
        days_before_year_def days_before_month_def is_leap_def Let_def)

lemma busy_world_lists:
  "pending_requests busy_world = [] \<and> approved_requests busy_world = []
   \<and> rejected_requests busy_world = [0, 1]
   \<and> map status (heap busy_world) = [REJECTED, EXPIRED]"
  using daily_elapsed[of "Suc (Suc 0)" 0, simplified]
  by (simp add: busy_world_def busy_calls_def empty_world_def request_url_approval_def
        request_terminal_approval_def ApprovalRequest_init_def datetime_now_def Let_def
        reject_request_def reject_def get_pending_request_def is_expired_def)

theorem rejected_count_includes_expired_witness:
  "distinct (tracked busy_world)
   \<and> get_rejected_count busy_world = 2
   \<and> length (filter (\<lambda>r. status (heap busy_world ! r) = REJECTED) (tracked busy_world)) = 1
   \<and> length (filter (\<lambda>r. status (heap busy_world ! r) = EXPIRED) (tracked busy_world)) = 1"
proof -
  have h: "pending_requests (empty_world daily_clock) = []"
          "approved_requests (empty_world daily_clock) = []"
          "rejected_requests (empty_world daily_clock) = []"
    by (simp_all add: empty_world_def)
  have s: "status (heap busy_world ! 0) = REJECTED" "status (heap busy_world ! Suc 0) = EXPIRED"
    using busy_world_lists
    by (metis list.simps(9) nth_Cons_0 nth_map length_map length_Cons zero_less_Suc,
        metis One_nat_def list.simps(9) nth_Cons_0 nth_Cons_Suc nth_map length_map length_Cons
          lessI Suc_less_eq zero_less_Suc)
  show ?thesis
    using rejected_count_includes_expired[OF h, of "py_repr shift_env" busy_calls]
          busy_world_lists s
    by (simp add: busy_world_def[symmetric] tracked_def get_rejected_count_def)
qed

section \<open>The baseline store\<close>

lemma py_digit_suffix: "py_digit U s = Some (v, r) \<Longrightarrow> \<exists>p. s = p @ r"
proof -
  assume a: "py_digit U s = Some (v, r)"
  show ?thesis
  proof (cases s)
    case Nil
    with a show ?thesis by (simp add: py_digit_def)
  next
    case (Cons c t)
    show ?thesis
    proof (cases "ascii_digit c")
      case True
      with a Cons have "r = t" by (simp add: py_digit_def)
      then have "s = [c] @ r" using Cons by simp
      then show ?thesis by (rule exI)
    next
      case False
      with a Cons obtain k where "r = drop k s"
        by (auto simp add: py_digit_def split: if_splits option.splits)
      then have "s = take k s @ r" by simp
      then show ?thesis by (rule exI)
    qed
  qed
qed

lemma two_digits_suffix: "two_digits U s = Some (v, r) \<Longrightarrow> \<exists>p. s = p @ r"
proof -
  assume a: "two_digits U s = Some (v, r)"
  then obtain x r1 y where 1: "py_digit U s = Some (x, r1)" and 2: "py_digit U r1 = Some (y, r)"
    by (auto simp add: two_digits_def split: option.splits)
  from py_digit_suffix[OF 1] obtain p where p: "s = p @ r1" by blast
  from py_digit_suffix[OF 2] obtain q where q: "r1 = q @ r" by blast
  have "s = (p @ q) @ r" using p q by simp
  then show ?thesis by (rule exI)
qed

lemma four_digits_suffix: "four_digits U s = Some (v, r) \<Longrightarrow> \<exists>p. s = p @ r"
proof -
  assume a: "four_digits U s = Some (v, r)"
  then obtain x r1 y where 1: "two_digits U s = Some (x, r1)" and 2: "two_digits U r1 = Some (y, r)"
    by (auto simp add: four_digits_def split: option.splits)
  from two_digits_suffix[OF 1] obtain p where p: "s = p @ r1" by blast
  from two_digits_suffix[OF 2] obtain q where q: "r1 = q @ r" by blast
  have "s = (p @ q) @ r" using p q by simp
  then show ?thesis by (rule exI)
qed

lemma expect_suffix: "expect c s = Some r \<Longrightarrow> s = [c] @ r"
  by (auto simp add: expect_def split: list.splits if_splits)

lemma date_group_suffix: "date_group U s = Some r \<Longrightarrow> \<exists>p. s = p @ r"
proof -
  assume a: "date_group U s = Some r"
  then obtain y r1 r2 m r3 r4 d where
    1: "four_digits U s = Some (y, r1)" and 2: "expect CHR ''-'' r1 = Some r2"
    and 3: "two_digits U r2 = Some (m, r3)" and 4: "expect CHR ''-'' r3 = Some r4"
    and 5: "two_digits U r4 = Some (d, r)"
    by (auto simp add: date_group_def split: option.splits)
  from four_digits_suffix[OF 1] obtain p1 where p1: "s = p1 @ r1" by blast
  from two_digits_suffix[OF 3] obtain p3 where p3: "r2 = p3 @ r3" by blast
  from two_digits_suffix[OF 5] obtain p5 where p5: "r4 = p5 @ r" by blast
  have "s = (p1 @ [CHR ''-''] @ p3 @ [CHR ''-''] @ p5) @ r"
    using p1 p3 p5 expect_suffix[OF 2] expect_suffix[OF 4] by simp
  then show ?thesis by (rule exI)
qed

lemma snapshot_date_glob:
  "(if endswith f ''.md'' then get_report_date U f else None) = snapshot_date U f"
proof (cases "date_group U f")
  case None
  then show ?thesis
    by (simp add: snapshot_date_def get_report_date_def REPORT_PATTERN_match_def)
next
  case (Some rest)
  from date_group_suffix[OF Some] obtain p where p: "f = p @ rest" by blast
  show ?thesis
  proof (cases "rest = ''_Intelligence.md''")
    case True
    have "endswith f ''.md''" unfolding p True by (simp add: endswith_def)
    then show ?thesis
      using Some True
      by (simp add: snapshot_date_def get_report_date_def REPORT_PATTERN_match_def)
  next
    case False
    have "get_report_date U f = None" if e: "endswith f ''.md''"
    proof (cases "rest = ''_Intelligence.md\<newline>''")
      case True
      have "\<not> endswith f ''.md''" unfolding p True by (simp add: endswith_def)
      with e show ?thesis by simp
    next
      case nl: False
      show ?thesis
        using Some False nl by (simp add: get_report_date_def REPORT_PATTERN_match_def)
    qed
    then show ?thesis using Some False by (simp add: snapshot_date_def)
  qed
qed

lemma scan_step:
  "scan_reports U d (f # rest) (lr, ld) =
     scan_reports U d rest
       (case get_report_date U f of
          None \<Rightarrow> (lr, ld)
        | Some rd \<Rightarrow>
            if dt_less rd d
            then (case ld of
                    None \<Rightarrow> (Some f, Some rd)
                  | Some l \<Rightarrow> if dt_less l rd then (Some f, Some rd) else (lr, ld))
            else (lr, ld))"
  by (cases "REPORT_PATTERN_match U f") (simp_all add: get_report_date_def)

lemma scan_reports_spec:
  assumes "lr = None \<longleftrightarrow> ld = None"
      and "\<forall>f l. lr = Some f \<and> ld = Some l \<longrightarrow> f \<in> S \<and> get_report_date U f = Some l \<and> dt_less l d"
      and "set names \<subseteq> S"
  shows "(fst (scan_reports U d names (lr, ld)) = None \<longleftrightarrow> snd (scan_reports U d names (lr, ld)) = None)
       \<and> (snd (scan_reports U d names (lr, ld)) = None
            \<longleftrightarrow> ld = None \<and> (\<forall>f\<in>set names. \<forall>x. get_report_date U f = Some x \<longrightarrow> \<not> dt_less x d))
       \<and> (\<forall>f' l'. fst (scan_reports U d names (lr, ld)) = Some f'
                   \<and> snd (scan_reports U d names (lr, ld)) = Some l' \<longrightarrow>
             f' \<in> S \<and> get_report_date U f' = Some l' \<and> dt_less l' d
             \<and> (\<forall>l. ld = Some l \<longrightarrow> dt_key l \<le> dt_key l')
             \<and> (\<forall>f\<in>set names. \<forall>x. get_report_date U f = Some x \<and> dt_less x d
                    \<longrightarrow> dt_key x \<le> dt_key l'))"
  using assms
proof (induction names arbitrary: lr ld)
  case Nil
  then show ?case by auto
next
  case (Cons f rest)
  define acc where "acc =
       (case get_report_date U f of
          None \<Rightarrow> (lr, ld)
        | Some rd \<Rightarrow>
            if dt_less rd d
            then (case ld of
                    None \<Rightarrow> (Some f, Some rd)
                  | Some l \<Rightarrow> if dt_less l rd then (Some f, Some rd) else (lr, ld))
            else (lr, ld))"
  have fS: "f \<in> S" and rS: "set rest \<subseteq> S" using Cons.prems(3) by auto
  have a1: "fst acc = None \<longleftrightarrow> snd acc = None"
    using Cons.prems(1) unfolding acc_def by (auto split: option.splits)
  have a2: "\<forall>g l. fst acc = Some g \<and> snd acc = Some l
              \<longrightarrow> g \<in> S \<and> get_report_date U g = Some l \<and> dt_less l d"
    using Cons.prems(2) fS unfolding acc_def by (auto split: option.splits if_splits)
  have a3: "snd acc = None \<longleftrightarrow> ld = None \<and> (\<forall>x. get_report_date U f = Some x \<longrightarrow> \<not> dt_less x d)"
    unfolding acc_def by (auto split: option.splits)
  have a4: "\<forall>l'. snd acc = Some l' \<longrightarrow>
              (\<forall>l. ld = Some l \<longrightarrow> dt_key l \<le> dt_key l')
              \<and> (\<forall>x. get_report_date U f = Some x \<and> dt_less x d \<longrightarrow> dt_key x \<le> dt_key l')"
    unfolding acc_def by (auto simp add: dt_less_def split: option.splits if_splits)
  note IH = Cons.IH[of "fst acc" "snd acc", OF a1 a2 rS]
  have e: "scan_reports U d (f # rest) (lr, ld) = scan_reports U d rest (fst acc, snd acc)"
    unfolding acc_def by (simp only: scan_step prod.collapse)
  show ?case
    unfolding e
  proof (intro conjI)
    show "fst (scan_reports U d rest (fst acc, snd acc)) = None
            \<longleftrightarrow> snd (scan_reports U d rest (fst acc, snd acc)) = None"
      using IH by blast
    show "snd (scan_reports U d rest (fst acc, snd acc)) = None
            \<longleftrightarrow> ld = None \<and> (\<forall>f\<in>set (f # rest). \<forall>x. get_report_date U f = Some x \<longrightarrow> \<not> dt_less x d)"
      using IH a3 by auto
    show "\<forall>f' l'. fst (scan_reports U d rest (fst acc, snd acc)) = Some f'
                   \<and> snd (scan_reports U d rest (fst acc, snd acc)) = Some l' \<longrightarrow>
             f' \<in> S \<and> get_report_date U f' = Some l' \<and> dt_less l' d
             \<and> (\<forall>l. ld = Some l \<longrightarrow> dt_key l \<le> dt_key l')
             \<and> (\<forall>f\<in>set (f # rest). \<forall>x. get_report_date U f = Some x \<and> dt_less x d
                    \<longrightarrow> dt_key x \<le> dt_key l')"
    proof (intro allI impI)
      fix f' l'
      assume r: "fst (scan_reports U d rest (fst acc, snd acc)) = Some f'
                   \<and> snd (scan_reports U d rest (fst acc, snd acc)) = Some l'"
      with IH have i: "f' \<in> S \<and> get_report_date U f' = Some l' \<and> dt_less l' d
             \<and> (\<forall>l. snd acc = Some l \<longrightarrow> dt_key l \<le> dt_key l')
             \<and> (\<forall>f\<in>set rest. \<forall>x. get_report_date U f = Some x \<and> dt_less x d
                    \<longrightarrow> dt_key x \<le> dt_key l')"
        by blast
      have b: "(\<forall>l. ld = Some l \<longrightarrow> dt_key l \<le> dt_key l')
               \<and> (\<forall>x. get_report_date U f = Some x \<and> dt_less x d \<longrightarrow> dt_key x \<le> dt_key l')"
      proof (cases "snd acc")
        case None
        then show ?thesis using a3 by blast
      next
        case (Some m)
        then have m: "dt_key m \<le> dt_key l'" using i by blast
        have "(\<forall>l. ld = Some l \<longrightarrow> dt_key l \<le> dt_key m)
              \<and> (\<forall>x. get_report_date U f = Some x \<and> dt_less x d \<longrightarrow> dt_key x \<le> dt_key m)"
          using a4 Some by blast
        then show ?thesis using m order_trans by blast
      qed
      then have b1: "\<forall>l. ld = Some l \<longrightarrow> dt_key l \<le> dt_key l'"
        and b2: "\<forall>x. get_report_date U f = Some x \<and> dt_less x d \<longrightarrow> dt_key x \<le> dt_key l'"
        by blast+
      show "f' \<in> S \<and> get_report_date U f' = Some l' \<and> dt_less l' d
             \<and> (\<forall>l. ld = Some l \<longrightarrow> dt_key l \<le> dt_key l')
             \<and> (\<forall>f\<in>set (f # rest). \<forall>x. get_report_date U f = Some x \<and> dt_less x d
                    \<longrightarrow> dt_key x \<le> dt_key l')"
        using i b1 b2 by auto
    qed
  qed
qed

lemma glob_md_member:
  "f \<in> set (glob_md entries) \<Longrightarrow> get_report_date U f = snapshot_date U f \<and> f \<in> set (map fst entries)"
  using snapshot_date_glob[of f U] by (auto simp add: glob_md_def)

lemma snapshot_in_glob:
  "f \<in> set (map fst entries) \<Longrightarrow> snapshot_date U f = Some x \<Longrightarrow> f \<in> set (glob_md entries)"
  using snapshot_date_glob[of f U] by (cases "endswith f ''.md''") (auto simp add: glob_md_def)

text \<open>
  C4. \<^verbatim>\<open>find_latest_report\<close> with reference date \<open>d\<close> (the clock's reading when none is
  given) ignores every entry whose name is not of the form \<^verbatim>\<open>YYYY-MM-DD_Intelligence.md\<close>,
  each of \<^verbatim>\<open>Y\<close>, \<^verbatim>\<open>M\<close>, \<^verbatim>\<open>D\<close> a decimal digit as the pattern's \<^verbatim>\<open>\d\<close> matches it,
  with a date that \<^verbatim>\<open>strptime\<close> reads. It returns none exactly when the directory is missing or no stored
  date is strictly before \<open>d\<close>; otherwise it returns an entry of the directory whose date is
  strictly before \<open>d\<close> and is the largest such date. Dates are compared as
  \<^verbatim>\<open>datetime\<close> values, a stored date being midnight of its day.
\<close>

theorem find_latest_report_nearest_before:
  "let d = (case before of None \<Rightarrow> clock w (ticks w) | Some d \<Rightarrow> d);
       names = (case reports_dir w of None \<Rightarrow> [] | Some entries \<Rightarrow> map fst entries);
       found = fst (find_latest_report before w)
   in (found = None \<longleftrightarrow>
         reports_dir w = None
         \<or> (\<forall>f\<in>set names. \<forall>x. snapshot_date (unicode_decimal w) f = Some x \<longrightarrow> \<not> dt_less x d))
      \<and> (\<forall>p. found = Some p \<longrightarrow>
            p \<in> set names
            \<and> (\<exists>x. snapshot_date (unicode_decimal w) p = Some x \<and> dt_less x d
                   \<and> (\<forall>f\<in>set names. \<forall>y. snapshot_date (unicode_decimal w) f = Some y \<and> dt_less y d
                          \<longrightarrow> dt_key y \<le> dt_key x)))"
proof (cases "reports_dir w")
  case None
  then show ?thesis
    by (cases before) (simp_all add: find_latest_report_def datetime_now_def Let_def)
next
  case (Some entries)
  define d where "d = (case before of None \<Rightarrow> clock w (ticks w) | Some d \<Rightarrow> d)"
  define U where "U = unicode_decimal w"
  define G where "G = glob_md entries"
  define res where "res = scan_reports U d G (None, None)"
  have f: "fst (find_latest_report before w) = fst res"
    using Some unfolding res_def G_def d_def U_def
    by (cases before) (simp_all add: find_latest_report_def datetime_now_def Let_def)
  have spec:
    "(fst res = None \<longleftrightarrow> snd res = None)
     \<and> (snd res = None \<longleftrightarrow> (\<forall>f\<in>set G. \<forall>x. get_report_date U f = Some x \<longrightarrow> \<not> dt_less x d))
     \<and> (\<forall>f' l'. fst res = Some f' \<and> snd res = Some l' \<longrightarrow>
           f' \<in> set G \<and> get_report_date U f' = Some l' \<and> dt_less l' d
           \<and> (\<forall>f\<in>set G. \<forall>x. get_report_date U f = Some x \<and> dt_less x d
                  \<longrightarrow> dt_key x \<le> dt_key l'))"
    using scan_reports_spec[of None None "set G" U d G] unfolding res_def by simp
  have g1: "\<And>f. f \<in> set G \<Longrightarrow> get_report_date U f = snapshot_date U f \<and> f \<in> set (map fst entries)"
    unfolding G_def by (rule glob_md_member)
  have g2: "\<And>f x. f \<in> set (map fst entries) \<Longrightarrow> snapshot_date U f = Some x \<Longrightarrow> f \<in> set G"
    unfolding G_def by (rule snapshot_in_glob)
  have n: "fst res = None \<longleftrightarrow>
             (\<forall>f\<in>set (map fst entries). \<forall>x. snapshot_date U f = Some x \<longrightarrow> \<not> dt_less x d)"
  proof
    assume "fst res = None"
    then have "\<forall>f\<in>set G. \<forall>x. get_report_date U f = Some x \<longrightarrow> \<not> dt_less x d"
      using spec by blast
    then show "\<forall>f\<in>set (map fst entries). \<forall>x. snapshot_date U f = Some x \<longrightarrow> \<not> dt_less x d"
      using g1 g2 by metis
  next
    assume a: "\<forall>f\<in>set (map fst entries). \<forall>x. snapshot_date U f = Some x \<longrightarrow> \<not> dt_less x d"
    have "\<forall>f\<in>set G. \<forall>x. get_report_date U f = Some x \<longrightarrow> \<not> dt_less x d"
    proof (intro ballI allI impI)
      fix f x assume "f \<in> set G" "get_report_date U f = Some x"
      then have "f \<in> set (map fst entries)" "snapshot_date U f = Some x" using g1 by auto
      then show "\<not> dt_less x d" using a by blast
    qed
    then show "fst res = None" using spec by blast
  qed
  have s: "\<forall>p. fst res = Some p \<longrightarrow>
            p \<in> set (map fst entries)
            \<and> (\<exists>x. snapshot_date U p = Some x \<and> dt_less x d
                   \<and> (\<forall>f\<in>set (map fst entries). \<forall>y. snapshot_date U f = Some y \<and> dt_less y d
                          \<longrightarrow> dt_key y \<le> dt_key x))"
  proof (intro allI impI)
    fix p assume p: "fst res = Some p"
    then obtain l where l: "snd res = Some l" using spec by (cases "snd res") auto
    have k: "p \<in> set G" "get_report_date U p = Some l" "dt_less l d"
            "\<forall>f\<in>set G. \<forall>x. get_report_date U f = Some x \<and> dt_less x d \<longrightarrow> dt_key x \<le> dt_key l"
      using spec p l by blast+
    have m: "\<forall>f\<in>set (map fst entries). \<forall>y. snapshot_date U f = Some y \<and> dt_less y d
               \<longrightarrow> dt_key y \<le> dt_key l"
    proof (intro ballI allI impI)
      fix f y assume fy: "f \<in> set (map fst entries)" "snapshot_date U f = Some y \<and> dt_less y d"
      then have "f \<in> set G" using g2 by blast
      then show "dt_key y \<le> dt_key l" using k(4) g1 fy by auto
    qed
    show "p \<in> set (map fst entries)
            \<and> (\<exists>x. snapshot_date U p = Some x \<and> dt_less x d
                   \<and> (\<forall>f\<in>set (map fst entries). \<forall>y. snapshot_date U f = Some y \<and> dt_less y d
                          \<longrightarrow> dt_key y \<le> dt_key x))"
    proof -
      have sp: "snapshot_date U p = Some l" using g1[OF k(1)] k(2) by simp
      have pin: "p \<in> set (map fst entries)" using g1[OF k(1)] by blast
      show ?thesis using sp pin k(3) m by blast
    qed
  qed
  show ?thesis
    unfolding Let_def f d_def[symmetric] U_def[symmetric] using Some n s by simp
qed

lemmas retriever_defs =
  REPORT_PATTERN_match_def date_group_def four_digits_def two_digits_def py_digit_def expect_def
  strptime_ymd_def strptime_month_def strptime_day_def in_range_def ascii_digit_def digit_val_def
  digit_table_def fullwidth_report_def fullwidth_def days_in_month_def is_leap_def

lemma shelf_found:
  "fst (find_latest_report (Some (midnight 18)) shelf_world) = Some fullwidth_report"
  by (simp add: find_latest_report_def shelf_world_def empty_world_def glob_md_def endswith_def
        retriever_defs dt_less_def dt_key_def midnight_def Let_def)

theorem find_latest_report_nearest_before_witness:
  "fst (find_latest_report (Some (midnight 18)) shelf_world) = Some fullwidth_report
   \<and> snapshot_date digit_table fullwidth_report = Some (midnight 17)
   \<and> snapshot_date digit_table ''2026-02-18_Intelligence.md'' = Some (midnight 18)
   \<and> snapshot_date digit_table ''2026-02-30_Intelligence.md'' = None
   \<and> snapshot_date digit_table ''notes.md'' = None
   \<and> (\<exists>x. snapshot_date digit_table fullwidth_report = Some x \<and> dt_less x (midnight 18)
          \<and> dt_key (midnight 11) \<le> dt_key x)"
proof -
  have a: "snapshot_date digit_table ''2026-02-11_Intelligence.md'' = Some (midnight 11)"
    by (simp add: snapshot_date_def retriever_defs midnight_def Let_def)
  have b: "dt_less (midnight 11) (midnight 18)"
    by (simp add: dt_less_def dt_key_def midnight_def)
  have c: "''2026-02-11_Intelligence.md''
             \<in> set (case reports_dir shelf_world of None \<Rightarrow> [] | Some entries \<Rightarrow> map fst entries)"
    by (simp add: shelf_world_def empty_world_def)
  have u: "unicode_decimal shelf_world = digit_table"
    by (simp add: shelf_world_def empty_world_def)
  have e: "snapshot_date digit_table fullwidth_report = Some (midnight 17)"
          "snapshot_date digit_table ''2026-02-18_Intelligence.md'' = Some (midnight 18)"
          "snapshot_date digit_table ''2026-02-30_Intelligence.md'' = None"
          "snapshot_date digit_table ''notes.md'' = None"
    by (simp_all add: snapshot_date_def retriever_defs midnight_def Let_def)
  show ?thesis
    using find_latest_report_nearest_before[where before = "Some (midnight 18)" and w = shelf_world]
          shelf_found a b c e
    unfolding Let_def u by (auto simp del: set_map)
qed

section \<open>The orchestrator: one competitor\<close>

lemma map_of_dict_set: "map_of (dict_set d k v) = (map_of d)(k \<mapsto> v)"
  by (simp add: dict_set_def update_conv')

lemma dict_get_dict_set:
  "dict_get (dict_set d k v) k' dflt = (if k' = k then v else dict_get d k' dflt)"
  by (simp add: dict_get_def map_of_dict_set)

text \<open>The two approval calls at the head of the try block always end in an approved request.\<close>

lemma approval_passes:
  "request_url_approval R url w = (r, w1) \<Longrightarrow> approve_request r by_whom w1 = (ok, w2)
     \<Longrightarrow> status (heap w2 ! r) = APPROVED \<and> clock w2 = clock w \<and> ticks w2 = ticks w + 2
         \<and> reports_dir w2 = reports_dir w \<and> browser_calls w2 = browser_calls w
         \<and> errors w2 = errors w \<and> competitors_json w2 = competitors_json w
         \<and> write_error w2 = write_error w \<and> unicode_decimal w2 = unicode_decimal w"
  by (auto simp add: request_url_approval_def ApprovalRequest_init_def approve_request_def
        approve_def datetime_now_def Let_def nth_append split: if_splits)

lemma find_latest_frame:
  "clock w' = clock w \<Longrightarrow> ticks w' = ticks w \<Longrightarrow> reports_dir w' = reports_dir w
     \<Longrightarrow> unicode_decimal w' = unicode_decimal w
     \<Longrightarrow> fst (find_latest_report None w') = fst (find_latest_report (Some (clock w (ticks w))) w0)"
  if "reports_dir w0 = reports_dir w" and "unicode_decimal w0 = unicode_decimal w"
  using that
  by (simp add: find_latest_report_def datetime_now_def Let_def split: option.splits)

lemma found_has_date:
  assumes "fst (find_latest_report b w) = Some p"
  shows "\<exists>l. get_report_date (unicode_decimal w) p = Some l"
proof (cases "reports_dir w")
  case None
  then show ?thesis using assms
    by (cases b) (simp_all add: find_latest_report_def datetime_now_def Let_def)
next
  case (Some entries)
  define d where "d = (case b of None \<Rightarrow> clock w (ticks w) | Some d \<Rightarrow> d)"
  define U where "U = unicode_decimal w"
  define res where "res = scan_reports U d (glob_md entries) (None, None)"
  have f: "fst (find_latest_report b w) = fst res"
    using Some unfolding res_def d_def U_def
    by (cases b) (simp_all add: find_latest_report_def datetime_now_def Let_def)
  have spec: "(fst res = None \<longleftrightarrow> snd res = None)
     \<and> (\<forall>f' l'. fst res = Some f' \<and> snd res = Some l' \<longrightarrow> get_report_date U f' = Some l')"
    using scan_reports_spec[of None None "set (glob_md entries)" U d "glob_md entries"]
    unfolding res_def by simp
  have "fst res = Some p" using assms f by simp
  then show ?thesis unfolding U_def[symmetric] using spec by (cases "snd res") auto
qed

lemma get_baseline_frame:
  "reports_dir w' = reports_dir w \<Longrightarrow> get_baseline_text p w' = get_baseline_text p w"
  by (simp add: get_baseline_text_def get_report_content_def)

lemma find_latest_snd:
  "snd (find_latest_report None w) = w\<lparr>ticks := Suc (ticks w)\<rparr>"
  by (simp add: find_latest_report_def datetime_now_def Let_def split: option.splits)

lemma process_body_new_competitor:
  assumes fetch: "extract_text_from_url E (browser_calls w) url = Inr (Some text)"
      and ne: "text \<noteq> []"
      and nb: "historical_text_at (clock w (ticks w + 2)) w = None
               \<or> historical_text_at (clock w (ticks w + 2)) w = Some []"
  shows "process_body E name url result w =
           ((None, new_competitor_result result),
            (snd (approve_request (fst (request_url_approval (py_repr E) url w)) ''test''
                    (snd (request_url_approval (py_repr E) url w))))
              \<lparr>browser_calls := Suc (browser_calls w), ticks := ticks w + 3\<rparr>)"
proof -
  obtain r w1 where q1: "request_url_approval (py_repr E) url w = (r, w1)"
    by (cases "request_url_approval (py_repr E) url w")
  obtain ok w2 where q2: "approve_request r ''test'' w1 = (ok, w2)"
    by (cases "approve_request r ''test'' w1")
  note ap = approval_passes[OF q1 q2]
  let ?w3 = "w2\<lparr>browser_calls := Suc (browser_calls w)\<rparr>"
  let ?w4 = "w2\<lparr>browser_calls := Suc (browser_calls w), ticks := ticks w + 3\<rparr>"
  have fl: "fst (find_latest_report None ?w3)
              = fst (find_latest_report (Some (clock w (ticks w + 2))) w)"
    using ap by (simp add: find_latest_report_def datetime_now_def Let_def split: option.splits)
  have w4: "snd (find_latest_report None ?w3) = ?w4"
    using ap by (simp add: find_latest_snd)
  have st: "status (heap w2 ! r) = APPROVED" using ap by simp
  have bc: "browser_calls w2 = browser_calls w" using ap by simp
  have fin: "snd (approve_request (fst (request_url_approval (py_repr E) url w)) ''test''
                    (snd (request_url_approval (py_repr E) url w))) = w2"
    by (simp add: q1 q2)
  show ?thesis
  proof (cases "fst (find_latest_report None ?w3)")
    case None
    show ?thesis
      unfolding fin process_body_def q1 Let_def
      using q2 st bc fetch ne w4 None
      by (simp add: case_prod_beta new_competitor_result_def record_comparison_def)
  next
    case (Some p)
    have "\<exists>l. get_report_date (unicode_decimal ?w3) p = Some l"
      using Some by (rule found_has_date)
    then obtain l where l: "get_report_date (unicode_decimal w2) p = Some l" by auto
    have g: "get_baseline_text p ?w4 = get_baseline_text p w"
      using ap by (simp add: get_baseline_text_def get_report_content_def)
    have "get_baseline_text p w = None \<or> get_baseline_text p w = Some []"
      using nb Some fl by (simp add: historical_text_at_def)
    then have h: "get_baseline_text p ?w4 = None \<or> get_baseline_text p ?w4 = Some []"
      using g by simp
    show ?thesis
      unfolding fin process_body_def q1 Let_def
      using q2 st bc fetch ne w4 Some l h
      by (auto simp add: case_prod_beta new_competitor_result_def record_comparison_def)
  qed
qed

lemma historical_text_at_frame:
  "reports_dir w' = reports_dir w \<Longrightarrow> unicode_decimal w' = unicode_decimal w
     \<Longrightarrow> historical_text_at d w' = historical_text_at d w"
  by (cases "reports_dir w")
     (simp_all add: historical_text_at_def find_latest_report_def get_baseline_text_def
        get_report_content_def split: option.splits)

lemma process_competitor_new:
  assumes fetch: "extract_text_from_url E (browser_calls w) (dict_get c ''url'' (PStr []))
                    = Inr (Some text)"
      and ne: "text \<noteq> []"
      and nb: "historical_text_at (clock w (ticks w + 3)) w = None
               \<or> historical_text_at (clock w (ticks w + 3)) w = Some []"
  shows "process_competitor E (PDict c) w =
           (Inr (new_competitor_result
                   [(''competitor_name'', dict_get c ''name'' (PStr ''Unknown'')),
                    (''url'', dict_get c ''url'' (PStr [])),
                    (''analysis_date'', PStr (strftime_ymd (clock w (ticks w)))),
                    (''is_strategic_shift'', PBool False),
                    (''findings'', PStr ''Processing...'')]),
            (snd (approve_request
                    (fst (request_url_approval (py_repr E) (dict_get c ''url'' (PStr []))
                            (w\<lparr>ticks := Suc (ticks w)\<rparr>)))
                    ''test''
                    (snd (request_url_approval (py_repr E) (dict_get c ''url'' (PStr []))
                            (w\<lparr>ticks := Suc (ticks w)\<rparr>)))))
              \<lparr>browser_calls := Suc (browser_calls w), ticks := ticks w + 4\<rparr>)"
proof -
  let ?w0 = "w\<lparr>ticks := Suc (ticks w)\<rparr>"
  have f0: "extract_text_from_url E (browser_calls ?w0) (dict_get c ''url'' (PStr []))
              = Inr (Some text)"
    using fetch by simp
  have h0: "historical_text_at (clock ?w0 (ticks ?w0 + 2)) ?w0 = None
            \<or> historical_text_at (clock ?w0 (ticks ?w0 + 2)) ?w0 = Some []"
    using nb historical_text_at_frame[of ?w0 w "clock w (ticks w + 3)"]
    by (simp add: numeral_3_eq_3)
  note b = process_body_new_competitor[OF f0 ne h0]
  show ?thesis
    unfolding process_competitor_def
    by (simp add: datetime_now_def Let_def b)
qed

text \<open>
  C6. When the fetch returns text and there is no baseline text (no report before the time of
  the look-up, or a report from which no text can be extracted), \<^verbatim>\<open>process_competitor\<close>
  records the classification \<^verbatim>\<open>new_competitor\<close>, the similarity percentage 0 and the
  strategic-shift flag false; the outcome is the same whatever the embedding model and the
  cosine similarity are, also when they raise, so the comparison is not invoked.
\<close>

theorem process_competitor_no_baseline:
  assumes "extract_text_from_url E (browser_calls w) (dict_get c ''url'' (PStr []))
             = Inr (Some text)"
      and "text \<noteq> []"
      and "historical_text_at (clock w (ticks w + 3)) w = None
           \<or> historical_text_at (clock w (ticks w + 3)) w = Some []"
  shows "\<exists>r w'. process_competitor E (PDict c) w = (Inr r, w')
           \<and> map_of r ''shift_classification'' = Some (PStr ''new_competitor'')
           \<and> map_of r ''similarity_percentage'' = Some (PInt 0)
           \<and> map_of r ''is_strategic_shift'' = Some (PBool False)
           \<and> (\<forall>enc cs. process_competitor (E\<lparr>encode := enc, cosine_similarity := cs\<rparr>)
                           (PDict c) w
                         = process_competitor E (PDict c) w)"
proof -
  note p = process_competitor_new[OF assms]
  have q: "process_competitor (E\<lparr>encode := enc, cosine_similarity := cs\<rparr>) (PDict c) w
             = process_competitor E (PDict c) w" for enc cs
    using process_competitor_new[of "E\<lparr>encode := enc, cosine_similarity := cs\<rparr>" w c "text"]
          assms p
    by simp
  show ?thesis
    using q unfolding p
    by (simp add: new_competitor_result_def map_of_dict_set)
qed

lemma pair_world_no_history: "historical_text_at d pair_world = None"
  by (simp add: historical_text_at_def find_latest_report_def pair_world_def empty_world_def
        glob_md_def)

theorem process_competitor_no_baseline_witness:
  "\<exists>r w'. process_competitor pair_env (PDict acme) pair_world = (Inr r, w')
     \<and> map_of r ''shift_classification'' = Some (PStr ''new_competitor'')
     \<and> map_of r ''similarity_percentage'' = Some (PInt 0)
     \<and> map_of r ''is_strategic_shift'' = Some (PBool False)"
proof -
  have f: "extract_text_from_url pair_env (browser_calls pair_world)
             (dict_get acme ''url'' (PStr [])) = Inr (Some ''Acme builds rockets'')"
    by (simp add: pair_env_def pair_world_def empty_world_def)
  have n: "''Acme builds rockets'' \<noteq> []" by simp
  have h: "historical_text_at (clock pair_world (ticks pair_world + 3)) pair_world = None
           \<or> historical_text_at (clock pair_world (ticks pair_world + 3)) pair_world = Some []"
    by (simp add: pair_world_no_history)
  show ?thesis
    using process_competitor_no_baseline[OF f n h] by blast
qed

section \<open>The orchestrator: the whole run\<close>

lemma record_comparison_keeps:
  assumes "map_of result ''competitor_name'' = Some name"
      and "\<exists>s. map_of result ''findings'' = Some (PStr s)"
  shows "map_of (snd (record_comparison E ct ht bd result)) ''competitor_name'' = Some name
       \<and> (\<exists>s. map_of (snd (record_comparison E ct ht bd result)) ''findings'' = Some (PStr s))"
  using assms unfolding record_comparison_def Let_def
  by (auto simp add: map_of_dict_set split: sum.splits option.splits)

lemma process_body_keeps:
  assumes nm: "map_of result ''competitor_name'' = Some name"
      and fi: "\<exists>s. map_of result ''findings'' = Some (PStr s)"
  shows "map_of (snd (fst (process_body E n url result w))) ''competitor_name'' = Some name
       \<and> (\<exists>s. map_of (snd (fst (process_body E n url result w))) ''findings'' = Some (PStr s))"
proof -
  obtain r w1 where q1: "request_url_approval (py_repr E) url w = (r, w1)"
    by (cases "request_url_approval (py_repr E) url w")
  obtain ok w2 where q2: "approve_request r ''test'' w1 = (ok, w2)"
    by (cases "approve_request r ''test'' w1")
  have st: "status (heap w2 ! r) = APPROVED" using approval_passes[OF q1 q2] by simp
  let ?w3 = "w2\<lparr>browser_calls := Suc (browser_calls w2)\<rparr>"
  show ?thesis
  proof (cases "extract_text_from_url E (browser_calls w2) url")
    case (Inl e)
    have "process_body E n url result w = ((Some e, result), ?w3)"
      unfolding process_body_def q1 Let_def using q2 st Inl by simp
    then show ?thesis using nm fi by simp
  next
    case (Inr current)
    show ?thesis
    proof (cases "current = None \<or> current = Some []")
      case True
      have "fst (process_body E n url result w)
              = (None, dict_set result ''findings'' (PStr ''Failed to extract text''))"
        unfolding process_body_def q1 Let_def using q2 st Inr True
        by (auto simp add: case_prod_beta)
      then show ?thesis using nm by (simp add: map_of_dict_set)
    next
      case False
      then obtain t where ct: "current = Some t" "t \<noteq> []" by (cases current) auto
      have ft: "extract_text_from_url E (browser_calls w2) url = Inr (Some t)"
        using Inr ct by simp
      obtain hr w4 where q4: "find_latest_report None ?w3 = (hr, w4)"
        by (cases "find_latest_report None ?w3")
      let ?H = "case hr of
                  None \<Rightarrow> Inr (None, ''N/A'')
                | Some p \<Rightarrow>
                    (case get_report_date (unicode_decimal w4) p of
                       None \<Rightarrow> Inl ''NoneType object has no attribute strftime''
                     | Some d \<Rightarrow> Inr (get_baseline_text p w4, strftime_ymd d))"
      show ?thesis
      proof (cases ?H)
        case (Inl e)
        have "process_body E n url result w = ((Some e, result), w4)"
          unfolding process_body_def q1 Let_def using q2 st ft ct(2) q4 Inl by simp
        then show ?thesis using nm fi by simp
      next
        case hb: (Inr hb)
        obtain ht bd where hbe: "hb = (ht, bd)" by (cases hb)
        have "process_body E n url result w
                = (record_comparison E t ht bd result, w4)"
          unfolding process_body_def q1 Let_def using q2 st ft ct(2) q4 hb hbe by simp
        then show ?thesis using record_comparison_keeps[OF nm fi] by simp
      qed
    qed
  qed
qed

lemma process_competitor_dict:
  "\<exists>r w'. process_competitor E (PDict c) w = (Inr r, w')
     \<and> map_of r ''competitor_name'' = Some (dict_get c ''name'' (PStr ''Unknown''))
     \<and> (\<exists>s. map_of r ''findings'' = Some (PStr s))"
proof -
  let ?name = "dict_get c ''name'' (PStr ''Unknown'')"
  let ?w0 = "w\<lparr>ticks := Suc (ticks w)\<rparr>"
  let ?result = "[(''competitor_name'', ?name),
                  (''url'', dict_get c ''url'' (PStr [])),
                  (''analysis_date'', PStr (strftime_ymd (clock w (ticks w)))),
                  (''is_strategic_shift'', PBool False),
                  (''findings'', PStr ''Processing...'')]"
  obtain exc r1 w1 where b:
    "process_body E ?name (dict_get c ''url'' (PStr [])) ?result ?w0 = ((exc, r1), w1)"
    by (metis prod.exhaust)
  have k: "map_of r1 ''competitor_name'' = Some ?name
           \<and> (\<exists>s. map_of r1 ''findings'' = Some (PStr s))"
    using process_body_keeps[of ?result ?name E ?name "dict_get c ''url'' (PStr [])" ?w0] b
    by simp
  show ?thesis
    using k unfolding process_competitor_def
    by (cases exc)
       (auto simp add: datetime_now_def Let_def b case_prod_beta map_of_dict_set)
qed

lemma process_all_dicts:
  assumes "\<forall>c\<in>set cs. \<exists>d. c = PDict d"
  shows "\<exists>rs' es' w'. process_all E cs rs es w = (Inr (rs @ rs', es'), w')
           \<and> length rs' = length cs
           \<and> map (\<lambda>r. dict_get r ''competitor_name'' (PStr ''Unknown'')) rs' = map entity_name cs"
  using assms
proof (induction cs arbitrary: rs es w)
  case Nil
  then show ?case by simp
next
  case (Cons c cs)
  then obtain d where d: "c = PDict d" by auto
  obtain r w1 s where p: "process_competitor E (PDict d) w = (Inr r, w1)"
      and nm: "map_of r ''competitor_name'' = Some (dict_get d ''name'' (PStr ''Unknown''))"
      and fi: "map_of r ''findings'' = Some (PStr s)"
    using process_competitor_dict[of E d w] by blast
  define es1 where "es1 =
     (if startswith s ''Error:''
      then es @ [[(''competitor_name'', dict_get r ''competitor_name'' (PStr ''Unknown'')),
                  (''error_message'', dict_get r ''findings'' (PStr ''Unknown error''))]]
      else es)"
  have step: "process_all E (c # cs) rs es w = process_all E cs (rs @ [r]) es1 w1"
    unfolding d es1_def using p fi by (simp add: dict_get_def)
  have rest: "\<forall>c\<in>set cs. \<exists>d. c = PDict d" using Cons.prems by simp
  obtain rs' es' w' where ih: "process_all E cs (rs @ [r]) es1 w1 = (Inr ((rs @ [r]) @ rs', es'), w')"
      "length rs' = length cs"
      "map (\<lambda>r. dict_get r ''competitor_name'' (PStr ''Unknown'')) rs' = map entity_name cs"
    using Cons.IH[OF rest, of "rs @ [r]" es1 w1] by blast
  have n: "dict_get r ''competitor_name'' (PStr ''Unknown'') = entity_name c"
    using nm by (simp add: dict_get_def entity_name_def d)
  show ?case
    unfolding step ih(1)
    by (rule exI[of _ "r # rs'"], rule exI[of _ es'], rule exI[of _ w'])
       (simp add: ih(2) ih(3) n)
qed

lemma section_head:
  "startswith (generate_competitor_section E r)
     (''## Competitor: '' @ py_str (py_repr E) (dict_get r ''competitor_name'' (PStr ''Unknown'')))"
  by (simp add: generate_competitor_section_def startswith_def Let_def)

lemma run_workflow_listed:
  assumes "competitors_json w = Loaded (PDict cfg)"
      and "dict_get cfg ''competitors'' (PList []) = PList cs"
      and "cs \<noteq> []"
      and "process_all E cs [] [] w = (Inr (rs, es), w2)"
  shows "run_workflow E w =
           (let (report, w3) = generate_report E rs (Some es) w2;
                (filename, w4) = generate_filename None w3;
                (failure, w5) = write_report filename report w4
            in (case failure of
                  None \<Rightarrow> (Inr report, w5)
                | Some e \<Rightarrow>
                    let (r, w6) = log_report_error (''Failed to save report: '' @ e) PNone w5
                    in (Inr report, w6)))"
proof -
  have cfg: "cfg \<noteq> []" using assms(2,3) by (auto simp add: dict_get_def)
  have l: "load_competitors_config w = (Inr (Some (PDict cfg)), w)"
    using assms(1) by (simp add: load_competitors_config_def)
  show ?thesis
    unfolding run_workflow_def l
    using cfg assms(2,3,4)
    by (simp add: py_iter_def)
qed

lemma run_workflow_listed_report:
  assumes "competitors_json w = Loaded (PDict cfg)"
      and "dict_get cfg ''competitors'' (PList []) = PList cs"
      and "cs \<noteq> []"
      and "process_all E cs [] [] w = (Inr (rs, es), w2)"
  shows "fst (run_workflow E w) = Inr (fst (generate_report E rs (Some es) w2))"
  unfolding run_workflow_listed[OF assms]
  by (simp add: case_prod_beta Let_def split: option.splits)

text \<open>
  C3. When the configuration file holds a non-empty list of \<open>N\<close> competitor objects, the run
  returns a report, whatever the fetches, the baseline look-ups and the comparisons do. The
  text of the report is the title and the summary, which states the count \<open>N\<close>, then the
  competitor sections of exactly \<open>N\<close> results one after the other, then the error summary
  and the recommendations; the \<open>i\<close>-th competitor section is headed by the name of the
  \<open>i\<close>-th configured competitor.
\<close>

theorem run_workflow_one_section_per_entity:
  assumes "competitors_json w = Loaded (PDict cfg)"
      and "dict_get cfg ''competitors'' (PList []) = PList cs"
      and "cs \<noteq> []"
      and "\<forall>c\<in>set cs. \<exists>d. c = PDict d"
  shows "\<exists>results errs today.
           fst (run_workflow E w)
             = Inr (''# Intelligence Report: '' @ today
                    @ ''\<newline>\<newline>## Executive Summary\<newline>\<newline>''
                    @ ''This report contains competitive intelligence gathered on ''
                    @ show_nat (length cs) @ '' competitors. \<newline>''
                    @ ''The analysis includes web content extraction, semantic diffing against historical baselines, \<newline>''
                    @ ''and identification of strategic shifts.\<newline>\<newline>---\<newline>\<newline>''
                    @ concat (map (generate_competitor_section E) results)
                    @ ''\<newline>\<newline>'' @ generate_error_section E errs
                    @ ''\<newline>\<newline>''
                    @ generate_recommendations_section E
                        (filter (\<lambda>r. py_truthy (dict_get r ''is_strategic_shift'' (PBool False)))
                           results)
                    @ ''\<newline>'')
           \<and> length results = length cs
           \<and> (\<forall>i<length cs.
                 startswith (generate_competitor_section E (results ! i))
                   (''## Competitor: '' @ py_str (py_repr E) (entity_name (cs ! i))))"
proof -
  obtain rs es w2 where pa: "process_all E cs [] [] w = (Inr (rs, es), w2)"
      and len: "length rs = length cs"
      and nms: "map (\<lambda>r. dict_get r ''competitor_name'' (PStr ''Unknown'')) rs = map entity_name cs"
    using process_all_dicts[OF assms(4), of E "[]" "[]" w] by auto
  define today where "today = strftime_ymd (clock w2 (ticks w2))"
  define secs where "secs = concat (map (generate_competitor_section E) rs)"
  define errsec where "errsec = generate_error_section E es"
  define recs where "recs = generate_recommendations_section E
                         (filter (\<lambda>r. py_truthy (dict_get r ''is_strategic_shift'' (PBool False)))
                            rs)"
  have gen: "fst (generate_report E rs (Some es) w2)
             = report_text today (length cs) (map (generate_competitor_section E) rs)
                      errsec recs"
    unfolding today_def errsec_def recs_def
    by (simp add: generate_report_def datetime_now_def Let_def len)
  have run: "fst (run_workflow E w)
             = Inr (report_text today (length cs) (map (generate_competitor_section E) rs)
                      errsec recs)"
    unfolding run_workflow_listed_report[OF assms(1,2,3) pa] gen by (rule refl)
  have lit: "fst (run_workflow E w)
             = Inr (''# Intelligence Report: '' @ today
                    @ ''\<newline>\<newline>## Executive Summary\<newline>\<newline>''
                    @ ''This report contains competitive intelligence gathered on ''
                    @ show_nat (length cs) @ '' competitors. \<newline>''
                    @ ''The analysis includes web content extraction, semantic diffing against historical baselines, \<newline>''
                    @ ''and identification of strategic shifts.\<newline>\<newline>---\<newline>\<newline>''
                    @ concat (map (generate_competitor_section E) rs)
                    @ ''\<newline>\<newline>'' @ generate_error_section E es
                    @ ''\<newline>\<newline>''
                    @ generate_recommendations_section E
                        (filter (\<lambda>r. py_truthy (dict_get r ''is_strategic_shift'' (PBool False)))
                           rs)
                    @ ''\<newline>'')"
    unfolding run report_text_def errsec_def recs_def by (rule refl)
  have heads: "\<forall>i<length cs.
                 startswith (generate_competitor_section E (rs ! i))
                   (''## Competitor: '' @ py_str (py_repr E) (entity_name (cs ! i)))"
  proof (intro allI impI)
    fix i assume i: "i < length cs"
    have "map (\<lambda>r. dict_get r ''competitor_name'' (PStr ''Unknown'')) rs ! i
            = map entity_name cs ! i"
      by (simp only: nms)
    then have "dict_get (rs ! i) ''competitor_name'' (PStr ''Unknown'') = entity_name (cs ! i)"
      using i len by (simp only: nth_map)
    then show "startswith (generate_competitor_section E (rs ! i))
                 (''## Competitor: '' @ py_str (py_repr E) (entity_name (cs ! i)))"
      using section_head[of E "rs ! i"] by (simp only:)
  qed
  show ?thesis
    by (intro exI conjI, rule lit, rule len, rule heads)
qed

lemmas eval_defs =
  pair_env_def pair_world_def acme_def bolt_def empty_world_def stopped_clock_def noon_def
  process_competitor_def process_body_def record_comparison_def
  request_url_approval_def ApprovalRequest_init_def approve_request_def approve_def
  datetime_now_def log_network_error_def log_error_def find_latest_report_def glob_md_def
  dict_get_def dict_set_def strftime_ymd_def pad4_def pad2_def digit_char_def isoformat_def
  startswith_def Let_def

lemma pair_process_all:
  "fst (process_all pair_env [PDict acme, PDict bolt] [] [] pair_world)
     = Inr ([acme_result, bolt_result], [])"
  by (simp add: eval_defs acme_result_def bolt_result_def)

lemma pair_process_all_errors:
  "map (\<lambda>e. (map_of e ''error_type'', map_of e ''competitor_name''))
       (errors (snd (process_all pair_env [PDict acme, PDict bolt] [] [] pair_world)))
     = [(Some (PStr ''network''), Some (PStr ''Bolt''))]"
  by (simp add: eval_defs)

lemmas run_defs =
  run_workflow_def load_competitors_config_def py_iter_def generate_report_def
  generate_error_section_def generate_filename_def write_report_def
  generate_error_report_def log_configuration_error_def

text \<open>
  C2, evaluated. Two competitors, the fetch for the first returns text and the fetch for the
  second returns no content: one report is returned, with a section for each competitor, and
  the error ledger holds one \<^verbatim>\<open>network\<close> error naming the second; but the error section of
  the report is the statement that all competitors were processed with no errors.
\<close>

theorem run_workflow_fetch_failure_not_reported:
  "fst (run_workflow pair_env pair_world)
     = Inr (report_text ''2026-02-18'' 2
              [generate_competitor_section pair_env acme_result,
               generate_competitor_section pair_env bolt_result]
              no_errors_section
              (generate_recommendations_section pair_env []))
   \<and> map (\<lambda>e. (map_of e ''error_type'', map_of e ''competitor_name''))
         (errors (snd (run_workflow pair_env pair_world)))
       = [(Some (PStr ''network''), Some (PStr ''Bolt''))]"
  by (simp add: run_defs eval_defs acme_result_def bolt_result_def numeral_2_eq_2)

text \<open>
  C9, evaluated. With a configuration file that lists no competitor the run returns the error
  report before any fetch, and the error ledger stays empty; with no configuration file the
  ledger receives one \<^verbatim>\<open>configuration\<close> error.
\<close>

theorem run_workflow_empty_list_logs_nothing:
  "fst (run_workflow pair_env unlisted_world)
     = Inr (fst (generate_error_report ''No competitors configured'' unlisted_world))
   \<and> errors (snd (run_workflow pair_env unlisted_world)) = []
   \<and> browser_calls (snd (run_workflow pair_env unlisted_world)) = 0
   \<and> map (\<lambda>e. map_of e ''error_type'')
         (errors (snd (run_workflow pair_env (empty_world (stopped_clock (noon 18))))))
       = [Some (PStr ''configuration'')]"
  by (simp add: run_defs eval_defs unlisted_world_def)

theorem run_workflow_one_section_per_entity_witness:
  "\<exists>results errs today.
     fst (run_workflow pair_env pair_world)
       = Inr (''# Intelligence Report: '' @ today
              @ ''\<newline>\<newline>## Executive Summary\<newline>\<newline>''
              @ ''This report contains competitive intelligence gathered on ''
              @ ''2'' @ '' competitors. \<newline>''
              @ ''The analysis includes web content extraction, semantic diffing against historical baselines, \<newline>''
              @ ''and identification of strategic shifts.\<newline>\<newline>---\<newline>\<newline>''
              @ concat (map (generate_competitor_section pair_env) results)
              @ ''\<newline>\<newline>'' @ generate_error_section pair_env errs
              @ ''\<newline>\<newline>''
              @ generate_recommendations_section pair_env
                  (filter (\<lambda>r. py_truthy (dict_get r ''is_strategic_shift'' (PBool False)))
                     results)
              @ ''\<newline>'')
     \<and> length results = 2
     \<and> startswith (generate_competitor_section pair_env (results ! 0)) ''## Competitor: Acme''
     \<and> startswith (generate_competitor_section pair_env (results ! 1)) ''## Competitor: Bolt''"
proof -
  have a: "competitors_json pair_world
             = Loaded (PDict [(''competitors'', PList [PDict acme, PDict bolt])])"
    by (simp add: pair_world_def empty_world_def)
  have b: "dict_get [(''competitors'', PList [PDict acme, PDict bolt])] ''competitors'' (PList [])
             = PList [PDict acme, PDict bolt]"
    by (simp add: dict_get_def)
  have c: "[PDict acme, PDict bolt] \<noteq> []" by simp
  have d: "\<forall>c\<in>set [PDict acme, PDict bolt]. \<exists>d. c = PDict d" by simp
  define cs where "cs = [PDict acme, PDict bolt]"
  have n: "show_nat (length cs) = ''2''" unfolding cs_def by (subst show_nat.simps) (simp add: digit_char_def)
  have l: "length cs = 2" unfolding cs_def by simp
  have e0: "''## Competitor: '' @ py_str (py_repr pair_env) (entity_name (cs ! 0))
              = ''## Competitor: Acme''"
    unfolding cs_def by (simp add: entity_name_def acme_def dict_get_def)
  have e1: "''## Competitor: '' @ py_str (py_repr pair_env) (entity_name (cs ! 1))
              = ''## Competitor: Bolt''"
    unfolding cs_def by (simp add: entity_name_def bolt_def dict_get_def)
  note t = run_workflow_one_section_per_entity[OF a b c d, of pair_env, folded cs_def]
  obtain results errs today where
    r: "fst (run_workflow pair_env pair_world)
       = Inr (''# Intelligence Report: '' @ today
              @ ''\<newline>\<newline>## Executive Summary\<newline>\<newline>''
              @ ''This report contains competitive intelligence gathered on ''
              @ show_nat (length cs) @ '' competitors. \<newline>''
              @ ''The analysis includes web content extraction, semantic diffing against historical baselines, \<newline>''
              @ ''and identification of strategic shifts.\<newline>\<newline>---\<newline>\<newline>''
              @ concat (map (generate_competitor_section pair_env) results)
              @ ''\<newline>\<newline>'' @ generate_error_section pair_env errs
              @ ''\<newline>\<newline>''
              @ generate_recommendations_section pair_env
                  (filter (\<lambda>r. py_truthy (dict_get r ''is_strategic_shift'' (PBool False)))
                     results)
              @ ''\<newline>'')"
    and ln: "length results = length cs"
    and h: "\<forall>i<length cs.
                 startswith (generate_competitor_section pair_env (results ! i))
                   (''## Competitor: '' @ py_str (py_repr pair_env) (entity_name (cs ! i)))"
    using t by blast
  have h0: "startswith (generate_competitor_section pair_env (results ! 0)) ''## Competitor: Acme''"
    using h l e0 by (metis zero_less_numeral)
  have h1: "startswith (generate_competitor_section pair_env (results ! 1)) ''## Competitor: Bolt''"
    using h l e1 by (metis one_less_numeral_iff semiring_norm(76))
  have l2: "length results = 2" using ln l by simp
  show ?thesis
    by (intro exI conjI, rule r[unfolded n], rule l2, rule h0, rule h1)
qed
end
